theory Spec2Isabelle
  imports Main "HOL-Library.Word" "HOL-Library.Signed_Division" "HOL-Library.Monad_Syntax"
begin

unbundle bit_operations_syntax

section \<open>Configuration and types (engine/fifth.h)\<close>

text \<open>
  The engine is modelled on an LP64 little-endian target: \<open>cell_t\<close> (\<open>intptr_t\<close>) is a
  64-bit word whose arithmetic wraps, \<open>char\<close> is signed.  Every access that is undefined
  behaviour in C (a pop from an empty stack, a push onto a full one, an arena access
  outside \<open>mem[]\<close>, a dictionary index outside the filled table) is the value \<open>None\<close>,
  and so is running out of fuel in the interpreter loops.
\<close>

type_synonym cell = "64 word"
type_synonym byte = "8 word"

definition DSTACK_SIZE :: nat where "DSTACK_SIZE = 256"
definition RSTACK_SIZE :: nat where "RSTACK_SIZE = 256"
definition MEM_SIZE :: nat where "MEM_SIZE = 1024 * 1024"
definition NAME_MAX_LEN :: nat where "NAME_MAX_LEN = 31"
definition MAX_DICT :: nat where "MAX_DICT = 8192"
definition PNO_SIZE :: nat where "PNO_SIZE = 128"

definition F_IMMEDIATE :: byte where "F_IMMEDIATE = 0x80"
definition F_HIDDEN :: byte where "F_HIDDEN = 0x40"
definition F_LENMASK :: byte where "F_LENMASK = 0x3F"

text \<open>
  The handler of a dictionary entry: the C function its \<open>code\<close> field points to.
  The primitives are grouped as the sections of engine/prims.c group them (the group of
  a primitive carries no meaning of its own).
\<close>

datatype stack_op =
  P_dup | P_drop | P_swap | P_over | P_to_r | P_r_from | P_r_fetch | P_2to_r | P_2r_from

datatype arith_op =
  P_add | P_sub | P_mul | P_div | P_mod | P_divmod | P_1add | P_eq | P_0eq

datatype mem_op =
  P_fetch | P_store | P_cfetch | P_cstore | P_here | P_allot | P_comma

datatype comp_op =
  P_colon | P_semicolon | P_immediate | P_lbracket | P_rbracket | P_state
  | P_execute | P_create | P_literal | P_does_compile

datatype rt_op =
  P_lit | P_branch | P_0branch | P_exit | P_does_runtime | P_slit
  | P_do_rt | P_qdo_rt | P_loop_rt | P_ploop_rt | P_i | P_j | P_unloop

datatype ctl_op =
  P_if | P_else | P_then | P_begin | P_until | P_again
  | P_do_compile | P_qdo_compile | P_loop_compile | P_ploop_compile

datatype misc_op =
  P_pno_begin | P_pno_digit | P_noop | P_abort | P_bye | P_base | P_decimal | P_hex

datatype prim_fn =
  Docol | Dovar | Docon | Dodoes
  | Stack stack_op | Arith arith_op | Mem mem_op | Comp comp_op
  | Rt rt_op | Ctl ctl_op | Misc misc_op

record dict_entry =
  link :: int
  flags :: byte
  name :: string
  code :: prim_fn
  param :: cell
  does :: cell

text \<open>
  The VM.  \<open>dict\<close> holds the filled part of the table (\<open>dict_count\<close> is its length);
  a stack is the list of its live cells, top first, so \<open>rdepth\<close> is the length and the
  C pointer \<open>rsp\<close> is \<open>rstack + RSTACK_SIZE - rdepth\<close>; \<open>tib\<close> holds the \<open>tib_len\<close>
  characters of the line; \<open>input\<close> is the stack of open source handles (\<open>input_depth\<close>
  is its length) and \<open>closed\<close> records the handles given to \<open>fclose\<close>; \<open>out\<close> and
  \<open>err\<close> are what was written to the output sink and to \<open>stderr\<close>.
\<close>

record vm =
  dict :: "dict_entry list"
  latest :: int
  mem :: "nat \<Rightarrow> byte"
  here :: cell
  dstack :: "cell list"
  rstack :: "cell list"
  ip :: cell
  w :: cell
  state :: cell
  base :: cell
  tib :: string
  tib_pos :: nat
  input :: "nat list"
  closed :: "nat list"
  out :: string
  err :: string
  pno_buf :: "nat \<Rightarrow> char"
  pno_pos :: int
  running :: bool
  exit_code :: int
  xt_lit :: int
  xt_branch :: int
  xt_0branch :: int
  xt_exit :: int
  xt_slit :: int
  xt_do :: int
  xt_qdo :: int
  xt_loop :: int
  xt_ploop :: int
  xt_does :: int

section \<open>Inline stack operations\<close>

definition push :: "vm \<Rightarrow> cell \<Rightarrow> vm option" where
  "push v x = (if length (dstack v) < DSTACK_SIZE then Some (v\<lparr>dstack := x # dstack v\<rparr>) else None)"

definition pop :: "vm \<Rightarrow> (cell \<times> vm) option" where
  "pop v = (case dstack v of [] \<Rightarrow> None | x # xs \<Rightarrow> Some (x, v\<lparr>dstack := xs\<rparr>))"

definition tos :: "vm \<Rightarrow> cell option" where
  "tos v = (case dstack v of [] \<Rightarrow> None | x # xs \<Rightarrow> Some x)"

definition rpush :: "vm \<Rightarrow> cell \<Rightarrow> vm option" where
  "rpush v x = (if length (rstack v) < RSTACK_SIZE then Some (v\<lparr>rstack := x # rstack v\<rparr>) else None)"

definition rpop :: "vm \<Rightarrow> (cell \<times> vm) option" where
  "rpop v = (case rstack v of [] \<Rightarrow> None | x # xs \<Rightarrow> Some (x, v\<lparr>rstack := xs\<rparr>))"

definition rtos :: "vm \<Rightarrow> cell option" where
  "rtos v = (case rstack v of [] \<Rightarrow> None | x # xs \<Rightarrow> Some x)"

definition depth :: "vm \<Rightarrow> nat" where
  "depth v = length (dstack v)"

definition rdepth :: "vm \<Rightarrow> nat" where
  "rdepth v = length (rstack v)"

text \<open>\<open>sp[n]\<close> and \<open>rsp[n]\<close>: the n-th cell below the top.\<close>

definition sp_at :: "vm \<Rightarrow> nat \<Rightarrow> cell option" where
  "sp_at v n = (if n < length (dstack v) then Some (dstack v ! n) else None)"

definition rsp_at :: "vm \<Rightarrow> nat \<Rightarrow> cell option" where
  "rsp_at v n = (if n < length (rstack v) then Some (rstack v ! n) else None)"

section \<open>Memory access (byte offset addressing)\<close>

fun le_bytes :: "nat \<Rightarrow> cell \<Rightarrow> byte list" where
  "le_bytes 0 x = []"
| "le_bytes (Suc n) x = ucast x # le_bytes n (drop_bit 8 x)"

fun le_cell :: "byte list \<Rightarrow> cell" where
  "le_cell [] = 0"
| "le_cell (b # bs) = ucast b OR push_bit 8 (le_cell bs)"

fun load_bytes :: "(nat \<Rightarrow> byte) \<Rightarrow> nat \<Rightarrow> nat \<Rightarrow> byte list" where
  "load_bytes m a 0 = []"
| "load_bytes m a (Suc n) = m a # load_bytes m (Suc a) n"

fun store_bytes :: "(nat \<Rightarrow> byte) \<Rightarrow> nat \<Rightarrow> byte list \<Rightarrow> (nat \<Rightarrow> byte)" where
  "store_bytes m a [] = m"
| "store_bytes m a (b # bs) = store_bytes (m(a := b)) (Suc a) bs"

definition addr_ok :: "cell \<Rightarrow> nat \<Rightarrow> bool" where
  "addr_ok a n = (0 \<le> sint a \<and> nat (sint a) + n \<le> MEM_SIZE)"

definition mem_fetch :: "vm \<Rightarrow> cell \<Rightarrow> cell option" where
  "mem_fetch v a = (if addr_ok a 8 then Some (le_cell (load_bytes (mem v) (nat (sint a)) 8)) else None)"

definition mem_store :: "vm \<Rightarrow> cell \<Rightarrow> cell \<Rightarrow> vm option" where
  "mem_store v a x = (if addr_ok a 8
     then Some (v\<lparr>mem := store_bytes (mem v) (nat (sint a)) (le_bytes 8 x)\<rparr>) else None)"

definition mem_c_fetch :: "vm \<Rightarrow> cell \<Rightarrow> byte option" where
  "mem_c_fetch v a = (if addr_ok a 1 then Some (mem v (nat (sint a))) else None)"

definition mem_c_store :: "vm \<Rightarrow> cell \<Rightarrow> byte \<Rightarrow> vm option" where
  "mem_c_store v a b = (if addr_ok a 1 then Some (v\<lparr>mem := (mem v)(nat (sint a) := b)\<rparr>) else None)"

section \<open>Compilation helpers and instruction fetch\<close>

definition vm_compile_cell :: "vm \<Rightarrow> cell \<Rightarrow> vm option" where
  "vm_compile_cell v x = do {
     v1 \<leftarrow> mem_store v (here v) x;
     Some (v1\<lparr>here := here v1 + 8\<rparr>)
   }"

definition vm_align :: "cell \<Rightarrow> cell" where
  "vm_align n = (n + 7) AND NOT 7"

definition vm_fetch_ip :: "vm \<Rightarrow> (cell \<times> vm) option" where
  "vm_fetch_ip v = do {
     x \<leftarrow> mem_fetch v (ip v);
     Some (x, v\<lparr>ip := ip v + 8\<rparr>)
   }"

text \<open>\<open>vm->dict[i]\<close> for an index inside the filled table, and an update of that entry.\<close>

definition dict_at :: "vm \<Rightarrow> int \<Rightarrow> dict_entry option" where
  "dict_at v i = (if 0 \<le> i \<and> i < int (length (dict v)) then Some (dict v ! nat i) else None)"

definition dict_upd :: "vm \<Rightarrow> int \<Rightarrow> (dict_entry \<Rightarrow> dict_entry) \<Rightarrow> vm option" where
  "dict_upd v i f = (if 0 \<le> i \<and> i < int (length (dict v))
     then Some (v\<lparr>dict := (dict v)[nat i := f (dict v ! nat i)]\<rparr>) else None)"

section \<open>Word handlers (engine/vm.c)\<close>

definition docol :: "vm \<Rightarrow> vm option" where
  "docol v = do {
     e \<leftarrow> dict_at v (sint (w v));
     v1 \<leftarrow> rpush v (ip v);
     Some (v1\<lparr>ip := param e\<rparr>)
   }"

definition dovar :: "vm \<Rightarrow> vm option" where
  "dovar v = do { e \<leftarrow> dict_at v (sint (w v)); push v (param e) }"

definition docon :: "vm \<Rightarrow> vm option" where
  "docon v = do { e \<leftarrow> dict_at v (sint (w v)); push v (param e) }"

definition dodoes :: "vm \<Rightarrow> vm option" where
  "dodoes v = do {
     e \<leftarrow> dict_at v (sint (w v));
     v1 \<leftarrow> push v (param e);
     v2 \<leftarrow> rpush v1 (ip v1);
     Some (v2\<lparr>ip := does e\<rparr>)
   }"

section \<open>Input parsing and dictionary lookup (engine/vm.c)\<close>

text \<open>The value of a C \<open>char\<close> (signed).\<close>

definition schar :: "char \<Rightarrow> int" where
  "schar c = (if of_char c < (128::nat) then int (of_char c) else int (of_char c) - 256)"

function skip_space :: "string \<Rightarrow> nat \<Rightarrow> nat" where
  "skip_space t p = (if p < length t \<and> schar (t ! p) \<le> 32 then skip_space t (Suc p) else p)"
  by pat_completeness auto
termination
  by (relation "measure (\<lambda>(t, p). length t - p)") auto

function scan_word :: "string \<Rightarrow> nat \<Rightarrow> string \<Rightarrow> nat \<times> string" where
  "scan_word t p buf = (if p < length t \<and> schar (t ! p) > 32 \<and> length buf < NAME_MAX_LEN
     then scan_word t (Suc p) (buf @ [t ! p]) else (p, buf))"
  by pat_completeness auto
termination
  by (relation "measure (\<lambda>(t, p, buf). length t - p)") auto

text \<open>\<open>vm_word\<close>: the parsed word (its length is the C return value) and the VM with
  \<open>tib_pos\<close> advanced.\<close>

definition vm_word :: "vm \<Rightarrow> string \<times> vm" where
  "vm_word v = (let p1 = skip_space (tib v) (tib_pos v);
                    (p2, buf) = scan_word (tib v) p1 []
                in (buf, v\<lparr>tib_pos := p2\<rparr>))"

definition tolower_c :: "char \<Rightarrow> char" where
  "tolower_c c = (if 65 \<le> (of_char c :: nat) \<and> (of_char c :: nat) \<le> 90
     then char_of (of_char c + (32::nat)) else c)"

text \<open>\<open>strncasecmp(a, b, n) == 0\<close> on NUL-free strings.\<close>

definition strncasecmp_eq :: "string \<Rightarrow> string \<Rightarrow> nat \<Rightarrow> bool" where
  "strncasecmp_eq a b n = (map tolower_c (take n a) = map tolower_c (take n b))"

text \<open>
  \<open>vm_find\<close>: the loop \<open>for (i = latest; i >= 0; i = dict[i].link)\<close>.  The links of a
  dictionary lead to smaller indices, so \<open>length dict + 1\<close> steps of fuel cover every chain;
  a chain that does not end in that many steps (a cycle) is \<open>None\<close>.
\<close>

fun vm_find_from :: "nat \<Rightarrow> vm \<Rightarrow> string \<Rightarrow> int \<Rightarrow> int option" where
  "vm_find_from 0 v nm i = None"
| "vm_find_from (Suc k) v nm i =
     (if i \<ge> 0 then
        (case dict_at v i of
           None \<Rightarrow> None
         | Some e \<Rightarrow>
             if flags e AND F_HIDDEN \<noteq> 0 then vm_find_from k v nm (link e)
             else if unat (flags e AND F_LENMASK) \<noteq> length nm then vm_find_from k v nm (link e)
             else if strncasecmp_eq (name e) nm (length nm) then Some i
             else vm_find_from k v nm (link e))
      else Some (-1))"

definition vm_find :: "vm \<Rightarrow> string \<Rightarrow> int option" where
  "vm_find v nm = vm_find_from (Suc (length (dict v))) v nm (latest v)"

text \<open>\<open>vm_try_number\<close>: \<open>None\<close> is the C \<open>false\<close>, \<open>Some n\<close> is \<open>true\<close> with
  \<open>*result = n\<close>.\<close>

definition digit_of :: "char \<Rightarrow> int option" where
  "digit_of c = (let n = (of_char c :: nat) in
     if 48 \<le> n \<and> n \<le> 57 then Some (int n - 48)
     else if 97 \<le> n \<and> n \<le> 122 then Some (int n - 97 + 10)
     else if 65 \<le> n \<and> n \<le> 90 then Some (int n - 65 + 10)
     else None)"

fun parse_digits :: "cell \<Rightarrow> string \<Rightarrow> cell \<Rightarrow> cell option" where
  "parse_digits b [] val = Some val"
| "parse_digits b (c # cs) val =
     (case digit_of c of
        None \<Rightarrow> None
      | Some d \<Rightarrow> if d \<ge> sint b then None else parse_digits b cs (val * b + word_of_int d))"

definition vm_try_number :: "vm \<Rightarrow> string \<Rightarrow> cell option" where
  "vm_try_number v s =
     (let len = length s in
      if len = 0 then None else
      let negative = (s ! 0 = CHR ''-'' \<and> len > 1);
          i = (if s ! 0 = CHR ''-'' \<and> len > 1 then 1
               else if s ! 0 = CHR ''+'' \<and> len > 1 then 1 else 0);
          (b, i) = (if i < len \<and> s ! i = CHR ''$'' then (16, i + 1)
                    else if i < len \<and> s ! i = CHR ''#'' then (10, i + 1)
                    else if i < len \<and> s ! i = CHR ''%'' then (2, i + 1)
                    else if len > i + 2 \<and> s ! i = CHR ''0''
                            \<and> (s ! (i + 1) = CHR ''x'' \<or> s ! (i + 1) = CHR ''X'') then (16, i + 2)
                    else (base v, i))
      in if i \<ge> len then None
         else map_option (\<lambda>val. if negative then - val else val) (parse_digits b (drop i s) 0))"

section \<open>Abort (engine/vm.c)\<close>

fun close_inputs :: "nat list \<Rightarrow> nat list \<Rightarrow> nat list" where
  "close_inputs [] cl = cl"
| "close_inputs (f # fs) cl = close_inputs fs (cl @ [f])"

definition vm_abort :: "vm \<Rightarrow> string \<Rightarrow> vm" where
  "vm_abort v msg = v\<lparr>err := err v @ ''ABORT: '' @ msg @ [CHR 0x0A],
                      dstack := [], rstack := [], state := 0,
                      closed := close_inputs (input v) (closed v), input := []\<rparr>"

section \<open>Primitives (engine/prims.c, engine/io.c)\<close>

subsection \<open>Stack operations\<close>

definition p_dup :: "vm \<Rightarrow> vm option" where
  "p_dup v = do { a \<leftarrow> tos v; push v a }"

definition p_drop :: "vm \<Rightarrow> vm option" where
  "p_drop v = do { (a, v1) \<leftarrow> pop v; Some v1 }"

definition p_swap :: "vm \<Rightarrow> vm option" where
  "p_swap v = do { (a, v1) \<leftarrow> pop v; (b, v2) \<leftarrow> pop v1; v3 \<leftarrow> push v2 a; push v3 b }"

definition p_over :: "vm \<Rightarrow> vm option" where
  "p_over v = do { x \<leftarrow> sp_at v 1; push v x }"

definition p_to_r :: "vm \<Rightarrow> vm option" where
  "p_to_r v = do { (x, v1) \<leftarrow> pop v; rpush v1 x }"

definition p_r_from :: "vm \<Rightarrow> vm option" where
  "p_r_from v = do { (x, v1) \<leftarrow> rpop v; push v1 x }"

definition p_r_fetch :: "vm \<Rightarrow> vm option" where
  "p_r_fetch v = do { x \<leftarrow> rtos v; push v x }"

definition p_2to_r :: "vm \<Rightarrow> vm option" where
  "p_2to_r v = do { (b, v1) \<leftarrow> pop v; (a, v2) \<leftarrow> pop v1; v3 \<leftarrow> rpush v2 a; rpush v3 b }"

definition p_2r_from :: "vm \<Rightarrow> vm option" where
  "p_2r_from v = do { (b, v1) \<leftarrow> rpop v; (a, v2) \<leftarrow> rpop v1; v3 \<leftarrow> push v2 a; push v3 b }"

subsection \<open>Arithmetic and comparison\<close>

text \<open>\<open>*vm->sp = f(*vm->sp)\<close>: the top cell rewritten in place.\<close>

definition tos_upd :: "vm \<Rightarrow> (cell \<Rightarrow> cell) \<Rightarrow> vm option" where
  "tos_upd v f = (case dstack v of [] \<Rightarrow> None | x # xs \<Rightarrow> Some (v\<lparr>dstack := f x # xs\<rparr>))"

text \<open>C's \<open>/\<close> and \<open>%\<close> on \<open>cell_t\<close>: truncation towards zero; a zero divisor and
  \<open>INTPTR_MIN / -1\<close> are undefined.\<close>

definition c_div :: "cell \<Rightarrow> cell \<Rightarrow> cell option" where
  "c_div a b = (if b = 0 \<or> (sint a = - (2 ^ 63) \<and> sint b = - 1) then None
                else Some (word_of_int (sint a sdiv sint b)))"

definition c_mod :: "cell \<Rightarrow> cell \<Rightarrow> cell option" where
  "c_mod a b = (if b = 0 \<or> (sint a = - (2 ^ 63) \<and> sint b = - 1) then None
                else Some (word_of_int (sint a smod sint b)))"

definition p_add :: "vm \<Rightarrow> vm option" where
  "p_add v = do { (b, v1) \<leftarrow> pop v; tos_upd v1 (\<lambda>a. a + b) }"

definition p_sub :: "vm \<Rightarrow> vm option" where
  "p_sub v = do { (b, v1) \<leftarrow> pop v; tos_upd v1 (\<lambda>a. a - b) }"

definition p_mul :: "vm \<Rightarrow> vm option" where
  "p_mul v = do { (b, v1) \<leftarrow> pop v; tos_upd v1 (\<lambda>a. a * b) }"

definition p_div :: "vm \<Rightarrow> vm option" where
  "p_div v = do {
     (b, v1) \<leftarrow> pop v;
     if b \<noteq> 0 then do { a \<leftarrow> tos v1; q \<leftarrow> c_div a b; tos_upd v1 (\<lambda>a. q) }
     else Some (vm_abort v1 ''division by zero'')
   }"

definition p_mod :: "vm \<Rightarrow> vm option" where
  "p_mod v = do {
     (b, v1) \<leftarrow> pop v;
     if b \<noteq> 0 then do { a \<leftarrow> tos v1; r \<leftarrow> c_mod a b; tos_upd v1 (\<lambda>a. r) }
     else Some (vm_abort v1 ''division by zero'')
   }"

definition p_divmod :: "vm \<Rightarrow> vm option" where
  "p_divmod v = do {
     (b, v1) \<leftarrow> pop v;
     (a, v2) \<leftarrow> pop v1;
     if b \<noteq> 0 then do {
       r \<leftarrow> c_mod a b; v3 \<leftarrow> push v2 r;
       q \<leftarrow> c_div a b; push v3 q }
     else Some (vm_abort v2 ''division by zero'')
   }"

definition p_1add :: "vm \<Rightarrow> vm option" where
  "p_1add v = tos_upd v (\<lambda>a. a + 1)"

definition p_eq :: "vm \<Rightarrow> vm option" where
  "p_eq v = do { (b, v1) \<leftarrow> pop v; tos_upd v1 (\<lambda>a. if a = b then - 1 else 0) }"

definition p_0eq :: "vm \<Rightarrow> vm option" where
  "p_0eq v = tos_upd v (\<lambda>a. if a = 0 then - 1 else 0)"

subsection \<open>Memory\<close>

definition p_fetch :: "vm \<Rightarrow> vm option" where
  "p_fetch v = do { a \<leftarrow> tos v; x \<leftarrow> mem_fetch v a; tos_upd v (\<lambda>a. x) }"

definition p_store :: "vm \<Rightarrow> vm option" where
  "p_store v = do { (a, v1) \<leftarrow> pop v; (x, v2) \<leftarrow> pop v1; mem_store v2 a x }"

definition p_cfetch :: "vm \<Rightarrow> vm option" where
  "p_cfetch v = do { a \<leftarrow> tos v; b \<leftarrow> mem_c_fetch v a; tos_upd v (\<lambda>a. ucast b) }"

definition p_cstore :: "vm \<Rightarrow> vm option" where
  "p_cstore v = do { (a, v1) \<leftarrow> pop v; (x, v2) \<leftarrow> pop v1; mem_c_store v2 a (ucast x) }"

definition p_here :: "vm \<Rightarrow> vm option" where
  "p_here v = push v (here v)"

definition p_allot :: "vm \<Rightarrow> vm option" where
  "p_allot v = do { (n, v1) \<leftarrow> pop v; Some (v1\<lparr>here := here v1 + n\<rparr>) }"

definition p_comma :: "vm \<Rightarrow> vm option" where
  "p_comma v = do {
     let v1 = v\<lparr>here := vm_align (here v)\<rparr>;
     (x, v2) \<leftarrow> pop v1;
     vm_compile_cell v2 x
   }"

subsection \<open>Compiler words\<close>

definition p_colon :: "vm \<Rightarrow> vm option" where
  "p_colon v = (let (nm, v1) = vm_word v in
     if length nm = 0 then Some (vm_abort v1 '': requires a name'')
     else if length (dict v1) \<ge> MAX_DICT then None
     else Some (v1\<lparr>dict := dict v1 @
                    [\<lparr>link = latest v1, flags = word_of_nat (length nm) OR F_HIDDEN, name = nm,
                      code = Docol, param = vm_align (here v1), does = - 1\<rparr>],
                  here := vm_align (here v1),
                  latest := int (length (dict v1)),
                  state := - 1\<rparr>))"

definition p_semicolon :: "vm \<Rightarrow> vm option" where
  "p_semicolon v = do {
     v1 \<leftarrow> vm_compile_cell v (word_of_int (xt_exit v));
     v2 \<leftarrow> dict_upd v1 (latest v1) (\<lambda>e. e\<lparr>flags := flags e AND NOT F_HIDDEN\<rparr>);
     Some (v2\<lparr>state := 0\<rparr>)
   }"

definition p_immediate :: "vm \<Rightarrow> vm option" where
  "p_immediate v = dict_upd v (latest v) (\<lambda>e. e\<lparr>flags := flags e OR F_IMMEDIATE\<rparr>)"

definition p_lbracket :: "vm \<Rightarrow> vm option" where
  "p_lbracket v = Some (v\<lparr>state := 0\<rparr>)"

definition p_rbracket :: "vm \<Rightarrow> vm option" where
  "p_rbracket v = Some (v\<lparr>state := - 1\<rparr>)"

definition p_state :: "vm \<Rightarrow> vm option" where
  "p_state v = do { v1 \<leftarrow> mem_store v 0 (state v); push v1 0 }"

definition p_create :: "vm \<Rightarrow> vm option" where
  "p_create v = (let (nm, v1) = vm_word v in
     if length nm = 0 then Some (vm_abort v1 ''CREATE requires a name'')
     else if length (dict v1) \<ge> MAX_DICT then None
     else Some (v1\<lparr>dict := dict v1 @
                    [\<lparr>link = latest v1, flags = word_of_nat (length nm), name = nm,
                      code = Dovar, param = vm_align (here v1), does = - 1\<rparr>],
                  here := vm_align (here v1),
                  latest := int (length (dict v1))\<rparr>))"

definition p_literal :: "vm \<Rightarrow> vm option" where
  "p_literal v = do {
     v1 \<leftarrow> vm_compile_cell v (word_of_int (xt_lit v));
     (x, v2) \<leftarrow> pop v1;
     vm_compile_cell v2 x
   }"

definition p_does_compile :: "vm \<Rightarrow> vm option" where
  "p_does_compile v = vm_compile_cell v (word_of_int (xt_does v))"

subsection \<open>Runtime support\<close>

definition p_lit :: "vm \<Rightarrow> vm option" where
  "p_lit v = do { (x, v1) \<leftarrow> vm_fetch_ip v; push v1 x }"

definition p_branch :: "vm \<Rightarrow> vm option" where
  "p_branch v = do { (x, v1) \<leftarrow> vm_fetch_ip v; Some (v1\<lparr>ip := x\<rparr>) }"

definition p_0branch :: "vm \<Rightarrow> vm option" where
  "p_0branch v = do {
     (dest, v1) \<leftarrow> vm_fetch_ip v;
     (x, v2) \<leftarrow> pop v1;
     Some (if x = 0 then v2\<lparr>ip := dest\<rparr> else v2)
   }"

definition p_exit :: "vm \<Rightarrow> vm option" where
  "p_exit v = do { (x, v1) \<leftarrow> rpop v; Some (v1\<lparr>ip := x\<rparr>) }"

definition p_does_runtime :: "vm \<Rightarrow> vm option" where
  "p_does_runtime v = do {
     v1 \<leftarrow> dict_upd v (latest v) (\<lambda>e. e\<lparr>code := Dodoes\<rparr>);
     v2 \<leftarrow> dict_upd v1 (latest v1) (\<lambda>e. e\<lparr>does := ip v1\<rparr>);
     (x, v3) \<leftarrow> rpop v2;
     Some (v3\<lparr>ip := x\<rparr>)
   }"

definition p_slit :: "vm \<Rightarrow> vm option" where
  "p_slit v = do {
     (len, v1) \<leftarrow> vm_fetch_ip v;
     let addr = ip v1;
     v2 \<leftarrow> push v1 addr;
     v3 \<leftarrow> push v2 len;
     Some (v3\<lparr>ip := ip v3 + vm_align len\<rparr>)
   }"

subsection \<open>Control flow (compile-time words)\<close>

definition p_if :: "vm \<Rightarrow> vm option" where
  "p_if v = do {
     v1 \<leftarrow> vm_compile_cell v (word_of_int (xt_0branch v));
     v2 \<leftarrow> push v1 (here v1);
     vm_compile_cell v2 0
   }"

definition p_else :: "vm \<Rightarrow> vm option" where
  "p_else v = do {
     v1 \<leftarrow> vm_compile_cell v (word_of_int (xt_branch v));
     let fwd2 = here v1;
     v2 \<leftarrow> vm_compile_cell v1 0;
     (fwd1, v3) \<leftarrow> pop v2;
     v4 \<leftarrow> mem_store v3 fwd1 (here v3);
     push v4 fwd2
   }"

definition p_then :: "vm \<Rightarrow> vm option" where
  "p_then v = do { (fwd, v1) \<leftarrow> pop v; mem_store v1 fwd (here v1) }"

definition p_begin :: "vm \<Rightarrow> vm option" where
  "p_begin v = push v (here v)"

definition p_until :: "vm \<Rightarrow> vm option" where
  "p_until v = do {
     (back, v1) \<leftarrow> pop v;
     v2 \<leftarrow> vm_compile_cell v1 (word_of_int (xt_0branch v1));
     vm_compile_cell v2 back
   }"

definition p_again :: "vm \<Rightarrow> vm option" where
  "p_again v = do {
     (back, v1) \<leftarrow> pop v;
     v2 \<leftarrow> vm_compile_cell v1 (word_of_int (xt_branch v1));
     vm_compile_cell v2 back
   }"

subsection \<open>DO / LOOP runtime\<close>

definition p_do_rt :: "vm \<Rightarrow> vm option" where
  "p_do_rt v = do {
     (idx, v1) \<leftarrow> pop v;
     (lim, v2) \<leftarrow> pop v1;
     v3 \<leftarrow> rpush v2 lim;
     rpush v3 idx
   }"

definition p_qdo_rt :: "vm \<Rightarrow> vm option" where
  "p_qdo_rt v = do {
     (dest, v1) \<leftarrow> vm_fetch_ip v;
     (idx, v2) \<leftarrow> pop v1;
     (lim, v3) \<leftarrow> pop v2;
     if idx = lim then Some (v3\<lparr>ip := dest\<rparr>)
     else do { v4 \<leftarrow> rpush v3 lim; rpush v4 idx }
   }"

definition p_loop_rt :: "vm \<Rightarrow> vm option" where
  "p_loop_rt v = do {
     (dest, v1) \<leftarrow> vm_fetch_ip v;
     (i0, v2) \<leftarrow> rpop v1;
     let idx = i0 + 1;
     lim \<leftarrow> rtos v2;
     if idx = lim then do { (l, v3) \<leftarrow> rpop v2; Some v3 }
     else do { v3 \<leftarrow> rpush v2 idx; Some (v3\<lparr>ip := dest\<rparr>) }
   }"

text \<open>\<open>x < 0\<close> on a cell: the sign bit.\<close>

definition cell_neg :: "cell \<Rightarrow> bool" where
  "cell_neg x = (sint x < 0)"

definition p_ploop_rt :: "vm \<Rightarrow> vm option" where
  "p_ploop_rt v = do {
     (dest, v1) \<leftarrow> vm_fetch_ip v;
     (step, v2) \<leftarrow> pop v1;
     (old_idx, v3) \<leftarrow> rpop v2;
     let new_idx = old_idx + step;
     lim \<leftarrow> rtos v3;
     let old_diff = old_idx - lim;
     let new_diff = new_idx - lim;
     let crossed = (cell_neg (old_diff XOR new_diff) \<and> cell_neg (old_diff XOR step));
     let done_flag = (crossed \<or> new_diff = 0);
     if done_flag then do { (l, v4) \<leftarrow> rpop v3; Some v4 }
     else do { v4 \<leftarrow> rpush v3 new_idx; Some (v4\<lparr>ip := dest\<rparr>) }
   }"

subsection \<open>DO / LOOP compile-time words\<close>

definition p_do_compile :: "vm \<Rightarrow> vm option" where
  "p_do_compile v = do {
     v1 \<leftarrow> vm_compile_cell v (word_of_int (xt_do v));
     v2 \<leftarrow> push v1 0;
     push v2 (here v2)
   }"

definition p_qdo_compile :: "vm \<Rightarrow> vm option" where
  "p_qdo_compile v = do {
     v1 \<leftarrow> vm_compile_cell v (word_of_int (xt_qdo v));
     let orig = here v1;
     v2 \<leftarrow> vm_compile_cell v1 0;
     v3 \<leftarrow> push v2 orig;
     push v3 (here v3)
   }"

definition p_loop_compile :: "vm \<Rightarrow> vm option" where
  "p_loop_compile v = do {
     (back, v1) \<leftarrow> pop v;
     (orig, v2) \<leftarrow> pop v1;
     v3 \<leftarrow> vm_compile_cell v2 (word_of_int (xt_loop v2));
     v4 \<leftarrow> vm_compile_cell v3 back;
     if orig \<noteq> 0 then mem_store v4 orig (here v4) else Some v4
   }"

definition p_ploop_compile :: "vm \<Rightarrow> vm option" where
  "p_ploop_compile v = do {
     (back, v1) \<leftarrow> pop v;
     (orig, v2) \<leftarrow> pop v1;
     v3 \<leftarrow> vm_compile_cell v2 (word_of_int (xt_ploop v2));
     v4 \<leftarrow> vm_compile_cell v3 back;
     if orig \<noteq> 0 then mem_store v4 orig (here v4) else Some v4
   }"

definition p_i :: "vm \<Rightarrow> vm option" where
  "p_i v = do { x \<leftarrow> rsp_at v 0; push v x }"

definition p_j :: "vm \<Rightarrow> vm option" where
  "p_j v = do { x \<leftarrow> rsp_at v 2; push v x }"

definition p_unloop :: "vm \<Rightarrow> vm option" where
  "p_unloop v = do { (a, v1) \<leftarrow> rpop v; (b, v2) \<leftarrow> rpop v1; Some v2 }"

subsection \<open>Pictured numeric output, base, miscellaneous\<close>

definition p_pno_begin :: "vm \<Rightarrow> vm option" where
  "p_pno_begin v = Some (v\<lparr>pno_pos := int PNO_SIZE\<rparr>)"

text \<open>\<open>#\<close>: the division is unsigned; a zero base is a division by zero, and a write
  outside \<open>pno_buf\<close> is undefined.\<close>

definition p_pno_digit :: "vm \<Rightarrow> vm option" where
  "p_pno_digit v = do {
     (d, v1) \<leftarrow> pop v;
     if base v1 = 0 then None else do {
       let r = d mod base v1;
       let d' = d div base v1;
       v2 \<leftarrow> push v1 d';
       let c = (if r < 10 then char_of (48 + unat r) else char_of (97 + unat r - 10));
       let pos = pno_pos v2 - 1;
       if 0 \<le> pos \<and> pos < int PNO_SIZE
       then Some (v2\<lparr>pno_pos := pos, pno_buf := (pno_buf v2)(nat pos := c)\<rparr>)
       else None }
   }"

definition p_noop :: "vm \<Rightarrow> vm option" where
  "p_noop v = Some v"

definition p_abort :: "vm \<Rightarrow> vm option" where
  "p_abort v = Some (vm_abort v ''ABORT called'')"

definition p_bye :: "vm \<Rightarrow> vm option" where
  "p_bye v = Some (v\<lparr>running := False\<rparr>)"

definition p_base :: "vm \<Rightarrow> vm option" where
  "p_base v = do { v1 \<leftarrow> mem_store v 8 (base v); push v1 8 }"

definition p_decimal :: "vm \<Rightarrow> vm option" where
  "p_decimal v = Some (v\<lparr>base := 10\<rparr>)"

definition p_hex :: "vm \<Rightarrow> vm option" where
  "p_hex v = Some (v\<lparr>base := 16\<rparr>)"

section \<open>Dispatch and the inner interpreter (engine/vm.c)\<close>

fun stack_prim :: "stack_op \<Rightarrow> vm \<Rightarrow> vm option" where
  "stack_prim P_dup = p_dup"
| "stack_prim P_drop = p_drop"
| "stack_prim P_swap = p_swap"
| "stack_prim P_over = p_over"
| "stack_prim P_to_r = p_to_r"
| "stack_prim P_r_from = p_r_from"
| "stack_prim P_r_fetch = p_r_fetch"
| "stack_prim P_2to_r = p_2to_r"
| "stack_prim P_2r_from = p_2r_from"

fun arith_prim :: "arith_op \<Rightarrow> vm \<Rightarrow> vm option" where
  "arith_prim P_add = p_add"
| "arith_prim P_sub = p_sub"
| "arith_prim P_mul = p_mul"
| "arith_prim P_div = p_div"
| "arith_prim P_mod = p_mod"
| "arith_prim P_divmod = p_divmod"
| "arith_prim P_1add = p_1add"
| "arith_prim P_eq = p_eq"
| "arith_prim P_0eq = p_0eq"

fun mem_prim :: "mem_op \<Rightarrow> vm \<Rightarrow> vm option" where
  "mem_prim P_fetch = p_fetch"
| "mem_prim P_store = p_store"
| "mem_prim P_cfetch = p_cfetch"
| "mem_prim P_cstore = p_cstore"
| "mem_prim P_here = p_here"
| "mem_prim P_allot = p_allot"
| "mem_prim P_comma = p_comma"

fun rt_prim :: "rt_op \<Rightarrow> vm \<Rightarrow> vm option" where
  "rt_prim P_lit = p_lit"
| "rt_prim P_branch = p_branch"
| "rt_prim P_0branch = p_0branch"
| "rt_prim P_exit = p_exit"
| "rt_prim P_does_runtime = p_does_runtime"
| "rt_prim P_slit = p_slit"
| "rt_prim P_do_rt = p_do_rt"
| "rt_prim P_qdo_rt = p_qdo_rt"
| "rt_prim P_loop_rt = p_loop_rt"
| "rt_prim P_ploop_rt = p_ploop_rt"
| "rt_prim P_i = p_i"
| "rt_prim P_j = p_j"
| "rt_prim P_unloop = p_unloop"

fun ctl_prim :: "ctl_op \<Rightarrow> vm \<Rightarrow> vm option" where
  "ctl_prim P_if = p_if"
| "ctl_prim P_else = p_else"
| "ctl_prim P_then = p_then"
| "ctl_prim P_begin = p_begin"
| "ctl_prim P_until = p_until"
| "ctl_prim P_again = p_again"
| "ctl_prim P_do_compile = p_do_compile"
| "ctl_prim P_qdo_compile = p_qdo_compile"
| "ctl_prim P_loop_compile = p_loop_compile"
| "ctl_prim P_ploop_compile = p_ploop_compile"

fun misc_prim :: "misc_op \<Rightarrow> vm \<Rightarrow> vm option" where
  "misc_prim P_pno_begin = p_pno_begin"
| "misc_prim P_pno_digit = p_pno_digit"
| "misc_prim P_noop = p_noop"
| "misc_prim P_abort = p_abort"
| "misc_prim P_bye = p_bye"
| "misc_prim P_base = p_base"
| "misc_prim P_decimal = p_decimal"
| "misc_prim P_hex = p_hex"

text \<open>
  \<open>call_code n c v\<close> is the call \<open>vm->dict[xt].code(vm)\<close> for the handler \<open>c\<close>;
  \<open>vm_run_loop n rb v\<close> is the loop of \<open>vm_run\<close> with \<open>rsp_base\<close> at depth \<open>rb\<close>
  (the C test \<open>vm->rsp <= rsp_base\<close> on the descending pointer is \<open>rdepth \<ge> rb\<close>);
  \<open>n\<close> is fuel: every iteration of the loop and every call of \<open>vm_execute\<close>
  uses one unit, and \<open>None\<close> is returned when it runs out.
\<close>

fun vm_run_loop :: "nat \<Rightarrow> nat \<Rightarrow> vm \<Rightarrow> vm option"
  and call_code :: "nat \<Rightarrow> prim_fn \<Rightarrow> vm \<Rightarrow> vm option"
  and vm_execute :: "nat \<Rightarrow> vm \<Rightarrow> int \<Rightarrow> vm option"
  and vm_run :: "nat \<Rightarrow> vm \<Rightarrow> vm option"
where
  "vm_run_loop 0 rb v = None"
| "vm_run_loop (Suc n) rb v =
     (if running v \<and> rdepth v \<ge> rb then do {
        (xt, v1) \<leftarrow> vm_fetch_ip v;
        let v2 = v1\<lparr>w := xt\<rparr>;
        e \<leftarrow> dict_at v2 (sint xt);
        v3 \<leftarrow> call_code n (code e) v2;
        vm_run_loop n rb v3 }
      else Some v)"
| "call_code n Docol v = docol v"
| "call_code n Dovar v = dovar v"
| "call_code n Docon v = docon v"
| "call_code n Dodoes v = dodoes v"
| "call_code n (Stack c) v = stack_prim c v"
| "call_code n (Arith c) v = arith_prim c v"
| "call_code n (Mem c) v = mem_prim c v"
| "call_code n (Rt c) v = rt_prim c v"
| "call_code n (Ctl c) v = ctl_prim c v"
| "call_code n (Misc c) v = misc_prim c v"
| "call_code n (Comp c) v =
     (case c of
        P_colon \<Rightarrow> p_colon v
      | P_semicolon \<Rightarrow> p_semicolon v
      | P_immediate \<Rightarrow> p_immediate v
      | P_lbracket \<Rightarrow> p_lbracket v
      | P_rbracket \<Rightarrow> p_rbracket v
      | P_state \<Rightarrow> p_state v
      | P_execute \<Rightarrow> do { (xt, v1) \<leftarrow> pop v; vm_execute n v1 (sint (ucast xt :: 32 word)) }
      | P_create \<Rightarrow> p_create v
      | P_literal \<Rightarrow> p_literal v
      | P_does_compile \<Rightarrow> p_does_compile v)"
| "vm_execute 0 v xt = None"
| "vm_execute (Suc n) v xt =
     (let v1 = v\<lparr>w := word_of_int xt\<rparr> in do {
        e \<leftarrow> dict_at v1 xt;
        if code e = Docol \<or> code e = Dodoes then do {
          v2 \<leftarrow> call_code n (code e) v1;
          vm_run n v2 }
        else call_code n (code e) v1 })"
| "vm_run n v = vm_run_loop n (rdepth v) v"

section \<open>The outer interpreter (engine/vm.c)\<close>

text \<open>
  One iteration of the loop of \<open>vm_interpret_tib\<close> for the word \<open>buf\<close> just parsed:
  the flag says whether the loop goes on (\<open>continue\<close>) or the function returns.
\<close>

definition interpret_token :: "nat \<Rightarrow> string \<Rightarrow> vm \<Rightarrow> (bool \<times> vm) option" where
  "interpret_token n buf v = do {
     xt \<leftarrow> vm_find v buf;
     if xt \<ge> 0 then do {
       e \<leftarrow> dict_at v xt;
       v1 \<leftarrow> (if state v \<noteq> 0 \<and> flags e AND F_IMMEDIATE = 0
              then vm_compile_cell v (word_of_int xt)
              else vm_execute n v xt);
       Some (True, v1) }
     else (case vm_try_number v buf of
        Some num \<Rightarrow> do {
          v1 \<leftarrow> (if state v \<noteq> 0
                 then do { v' \<leftarrow> vm_compile_cell v (word_of_int (xt_lit v)); vm_compile_cell v' num }
                 else push v num);
          Some (True, v1) }
      | None \<Rightarrow>
          Some (False, vm_abort (v\<lparr>err := err v @ buf @ '' ?'' @ [CHR 0x0A]\<rparr>) ''undefined word''))
   }"

fun vm_interpret_tib :: "nat \<Rightarrow> vm \<Rightarrow> vm option" where
  "vm_interpret_tib 0 v = None"
| "vm_interpret_tib (Suc n) v =
     (if running v then
        (let (buf, v1) = vm_word v in
         if length buf = 0 then Some v1
         else do {
           (cont, v2) \<leftarrow> interpret_token n buf v1;
           if cont then vm_interpret_tib n v2 else Some v2 })
      else Some v)"

text \<open>\<open>vm_interpret_line\<close>: the line is cut to \<open>TIB_SIZE - 1\<close> characters.\<close>

definition vm_interpret_line :: "nat \<Rightarrow> vm \<Rightarrow> string \<Rightarrow> vm option" where
  "vm_interpret_line n v line = vm_interpret_tib n (v\<lparr>tib := take 1023 line, tib_pos := 0\<rparr>)"

section \<open>Registration and VM lifecycle (engine/vm.c, engine/prims.c, engine/io.c)\<close>

definition vm_add_prim :: "vm \<Rightarrow> string \<Rightarrow> prim_fn \<Rightarrow> bool \<Rightarrow> int \<times> vm" where
  "vm_add_prim v nm fn immediate =
     (let idx = int (length (dict v));
          len = (if length nm > NAME_MAX_LEN then NAME_MAX_LEN else length nm)
      in (idx, v\<lparr>dict := dict v @
                    [\<lparr>link = latest v,
                      flags = word_of_nat len OR (if immediate then F_IMMEDIATE else 0),
                      name = take len nm, code = fn, param = 0, does = - 1\<rparr>],
                  latest := idx\<rparr>))"

text \<open>A run of registrations whose returned index is not used.\<close>

fun add_prims :: "vm \<Rightarrow> (string \<times> prim_fn \<times> bool) list \<Rightarrow> vm" where
  "add_prims v [] = v"
| "add_prims v ((nm, fn, imm) # ps) = add_prims (snd (vm_add_prim v nm fn imm)) ps"

text \<open>
  \<open>prims_init\<close> and \<open>io_init\<close>, in the order of the source.  The registrations of the
  primitives that are not modelled here are left out, so the helper XTs 0 to 9 are the
  engine's and the later XTs are smaller than the engine's.
\<close>

definition prims_init :: "vm \<Rightarrow> vm" where
  "prims_init v0 =
     (let v = v0\<lparr>here := 64\<rparr>;
          (x, v) = vm_add_prim v ''(lit)'' (Rt P_lit) False; v = v\<lparr>xt_lit := x\<rparr>;
          (x, v) = vm_add_prim v ''(branch)'' (Rt P_branch) False; v = v\<lparr>xt_branch := x\<rparr>;
          (x, v) = vm_add_prim v ''(0branch)'' (Rt P_0branch) False; v = v\<lparr>xt_0branch := x\<rparr>;
          (x, v) = vm_add_prim v ''(exit)'' (Rt P_exit) False; v = v\<lparr>xt_exit := x\<rparr>;
          (x, v) = vm_add_prim v [CHR ''('', CHR ''s'', CHR 0x22, CHR '')''] (Rt P_slit) False;
          v = v\<lparr>xt_slit := x\<rparr>;
          (x, v) = vm_add_prim v ''(do)'' (Rt P_do_rt) False; v = v\<lparr>xt_do := x\<rparr>;
          (x, v) = vm_add_prim v ''(?do)'' (Rt P_qdo_rt) False; v = v\<lparr>xt_qdo := x\<rparr>;
          (x, v) = vm_add_prim v ''(loop)'' (Rt P_loop_rt) False; v = v\<lparr>xt_loop := x\<rparr>;
          (x, v) = vm_add_prim v ''(+loop)'' (Rt P_ploop_rt) False; v = v\<lparr>xt_ploop := x\<rparr>;
          (x, v) = vm_add_prim v ''(does>)'' (Rt P_does_runtime) False; v = v\<lparr>xt_does := x\<rparr>
      in add_prims v
        [(''dup'', Stack P_dup, False), (''drop'', Stack P_drop, False),
         (''swap'', Stack P_swap, False), (''over'', Stack P_over, False),
         (''>r'', Stack P_to_r, False), (''r>'', Stack P_r_from, False),
         (''r@'', Stack P_r_fetch, False), (''2>r'', Stack P_2to_r, False),
         (''2r>'', Stack P_2r_from, False),
         (''+'', Arith P_add, False), (''-'', Arith P_sub, False), (''*'', Arith P_mul, False),
         (''/'', Arith P_div, False), (''mod'', Arith P_mod, False),
         (''/mod'', Arith P_divmod, False), (''1+'', Arith P_1add, False),
         (''='', Arith P_eq, False), (''0='', Arith P_0eq, False),
         (''@'', Mem P_fetch, False), (''!'', Mem P_store, False),
         (''c@'', Mem P_cfetch, False), (''c!'', Mem P_cstore, False),
         (''here'', Mem P_here, False), (''allot'', Mem P_allot, False),
         ('','', Mem P_comma, False),
         ('':'', Comp P_colon, False), ('';'', Comp P_semicolon, True),
         (''immediate'', Comp P_immediate, False), (''['', Comp P_lbracket, True),
         ('']'', Comp P_rbracket, False), (''state'', Comp P_state, False),
         (''execute'', Comp P_execute, False), (''create'', Comp P_create, False),
         (''literal'', Comp P_literal, True), (''does>'', Comp P_does_compile, True),
         (''if'', Ctl P_if, True), (''else'', Ctl P_else, True), (''then'', Ctl P_then, True),
         (''begin'', Ctl P_begin, True), (''until'', Ctl P_until, True),
         (''again'', Ctl P_again, True),
         (''do'', Ctl P_do_compile, True), (''?do'', Ctl P_qdo_compile, True),
         (''loop'', Ctl P_loop_compile, True), (''+loop'', Ctl P_ploop_compile, True),
         (''i'', Rt P_i, False), (''j'', Rt P_j, False), (''unloop'', Rt P_unloop, False),
         (''<#'', Misc P_pno_begin, False), (''#'', Misc P_pno_digit, False),
         (''noop'', Misc P_noop, False), (''abort'', Misc P_abort, False)])"

definition io_init :: "vm \<Rightarrow> vm" where
  "io_init v = add_prims v
     [(''bye'', Misc P_bye, False), (''base'', Misc P_base, False),
      (''decimal'', Misc P_decimal, False), (''hex'', Misc P_hex, False)]"

text \<open>\<open>vm_create\<close>: the zeroed structure (\<open>calloc\<close>), the initial state, the registrations.\<close>

definition vm_zero :: vm where
  "vm_zero = \<lparr>dict = [], latest = 0, mem = (\<lambda>a. 0), here = 0, dstack = [], rstack = [],
     ip = 0, w = 0, state = 0, base = 0, tib = [], tib_pos = 0, input = [], closed = [],
     out = [], err = [], pno_buf = (\<lambda>a. CHR 0x00), pno_pos = 0, running = False, exit_code = 0,
     xt_lit = 0, xt_branch = 0, xt_0branch = 0, xt_exit = 0, xt_slit = 0, xt_do = 0,
     xt_qdo = 0, xt_loop = 0, xt_ploop = 0, xt_does = 0\<rparr>"

definition vm_create :: vm where
  "vm_create =
     (let v = vm_zero\<lparr>state := 0, base := 10, here := 0, latest := - 1, running := True\<rparr>;
          v = prims_init v;
          v = io_init v
      in v\<lparr>here := vm_align (here v)\<rparr>)"

section \<open>Forth to C code generation (engine/tcc.c)\<close>

definition c_ident_char :: "char \<Rightarrow> bool" where
  "c_ident_char c = (let n = (of_char c :: nat) in
     (97 \<le> n \<and> n \<le> 122) \<or> (65 \<le> n \<and> n \<le> 90) \<or> (48 \<le> n \<and> n \<le> 57) \<or> c = CHR ''_'')"

text \<open>The loop that builds \<open>c_name\<close>: at most 60 characters, every character that is
  not a letter, a digit or an underscore replaced by an underscore.\<close>

definition sanitize_name :: "string \<Rightarrow> string" where
  "sanitize_name nm = map (\<lambda>c. if c_ident_char c then c else CHR ''_'') (take 60 nm)"

text \<open>\<open>printf("%ld", x)\<close>.\<close>

function show_nat :: "nat \<Rightarrow> string" where
  "show_nat n = (if n < 10 then [char_of (48 + n)]
                 else show_nat (n div 10) @ [char_of (48 + n mod 10)])"
  by pat_completeness auto
termination
  by (relation "measure (\<lambda>n. n)") auto

definition show_long :: "int \<Rightarrow> string" where
  "show_long i = (if i < 0 then CHR ''-'' # show_nat (nat (- i)) else show_nat (nat i))"

definition NL :: string where
  "NL = [CHR 0x0A]"

text \<open>The chain of \<open>strcmp(sub->name, ...)\<close> tests: the first name that is equal gives
  the helper to call.\<close>

definition prim_helpers :: "(string \<times> string) list" where
  "prim_helpers =
     [(''+'', ''f_add''), (''-'', ''f_sub''), (''*'', ''f_mul''), (''/'', ''f_div''),
      (''mod'', ''f_mod''), (''dup'', ''f_dup''), (''drop'', ''f_drop''), (''swap'', ''f_swap''),
      (''over'', ''f_over''), (''rot'', ''f_rot''), (''.'', ''f_dot''), (''cr'', ''f_cr''),
      (''emit'', ''f_emit''), (''='', ''f_eq''), (''<>'', ''f_ne''), (''<'', ''f_lt''),
      (''>'', ''f_gt''), (''<='', ''f_le''), (''>='', ''f_ge''), (''0='', ''f_0eq''),
      (''0<'', ''f_0lt''), (''0>'', ''f_0gt''), (''and'', ''f_and''), (''or'', ''f_or''),
      (''xor'', ''f_xor''), (''invert'', ''f_invert''), (''negate'', ''f_neg''),
      (''abs'', ''f_abs''), (''@'', ''f_fetch''), (''!'', ''f_store''), (''c@'', ''f_cfetch''),
      (''c!'', ''f_cstore''), (''>r'', ''f_tor''), (''r>'', ''f_fromr''), (''r@'', ''f_rfetch'')]"

text \<open>
  One iteration of the \<open>while (1)\<close> loop of \<open>codegen_word\<close> at the arena offset
  \<open>p\<close>: \<open>Some None\<close> is the \<open>break\<close> at the exit XT, \<open>Some (Some (txt, p'))\<close> is
  the text emitted and the offset the walk goes on from.
\<close>

definition codegen_step :: "vm \<Rightarrow> cell \<Rightarrow> (string \<times> cell) option option" where
  "codegen_step v p = do {
     sub_xt \<leftarrow> mem_fetch v p;
     let p1 = p + 8;
     if sint sub_xt = xt_exit v then Some None
     else if sint sub_xt = xt_lit v then do {
       val \<leftarrow> mem_fetch v p1;
       Some (Some (''    PUSH('' @ show_long (sint val) @ '');'' @ NL, p1 + 8)) }
     else if sint sub_xt = xt_branch v then do {
       offset \<leftarrow> mem_fetch v p1;
       let p2 = p1 + 8;
       Some (Some (''    goto L'' @ show_long (sint (p2 + offset)) @ '';'' @ NL, p2)) }
     else if sint sub_xt = xt_0branch v then do {
       offset \<leftarrow> mem_fetch v p1;
       let p2 = p1 + 8;
       Some (Some (''    if (POP() == 0) goto L'' @ show_long (sint (p2 + offset)) @ '';'' @ NL, p2)) }
     else do {
       sub \<leftarrow> dict_at v (sint sub_xt);
       Some (Some ((case map_of prim_helpers (name sub) of
                Some f \<Rightarrow> ''    '' @ f @ ''();'' @ NL
              | None \<Rightarrow>
                  if code sub = Docol then ''    word_'' @ sanitize_name (name sub) @ ''();'' @ NL
                  else ''    /* TODO: '' @ name sub @ '' */'' @ NL), p1)) }
   }"

text \<open>The loop: the text emitted up to the \<open>break\<close>.  Fuel bounds the walk (a body
  with no exit XT is \<open>None\<close>).\<close>

fun codegen_body :: "nat \<Rightarrow> vm \<Rightarrow> cell \<Rightarrow> string option" where
  "codegen_body 0 v p = None"
| "codegen_body (Suc n) v p = do {
     r \<leftarrow> codegen_step v p;
     case r of
       None \<Rightarrow> Some []
     | Some (txt, p') \<Rightarrow> do { rest \<leftarrow> codegen_body n v p'; Some (txt @ rest) }
   }"

definition codegen_word :: "nat \<Rightarrow> vm \<Rightarrow> int \<Rightarrow> string option" where
  "codegen_word n v xt = do {
     entry \<leftarrow> dict_at v xt;
     body \<leftarrow> (if code entry = Docol then codegen_body n v (param entry) else Some []);
     Some (''static void word_'' @ sanitize_name (name entry) @ ''(void) {'' @ NL
           @ body @ ''}'' @ NL @ NL)
   }"

section \<open>Example states\<close>

text \<open>An arena that holds the given cells from the offset \<open>a\<close> on.\<close>

fun put_cells :: "(nat \<Rightarrow> byte) \<Rightarrow> nat \<Rightarrow> cell list \<Rightarrow> (nat \<Rightarrow> byte)" where
  "put_cells m a [] = m"
| "put_cells m a (x # xs) = put_cells (store_bytes m a (le_bytes 8 x)) (a + 8) xs"

definition mk_entry :: "string \<Rightarrow> prim_fn \<Rightarrow> cell \<Rightarrow> int \<Rightarrow> dict_entry" where
  "mk_entry nm c p l =
     \<lparr>link = l, flags = word_of_nat (length nm), name = nm, code = c, param = p, does = - 1\<rparr>"

text \<open>\<open>(+loop)\<close> about to run at offset 64 with step 2, index 9 and limit 10.\<close>

definition ploop_vm :: vm where
  "ploop_vm = vm_zero\<lparr>running := True, base := 10, ip := 64, dstack := [2], rstack := [9, 10],
     mem := put_cells (\<lambda>a. 0) 64 [48]\<rparr>"

text \<open>A division by zero inside a nested source: two open handles, a non-empty return
  stack, compile state.\<close>

definition div0_vm :: vm where
  "div0_vm = vm_zero\<lparr>running := True, base := 10, dstack := [0, 7, 5], rstack := [3],
     state := - 1, input := [2, 1]\<rparr>"

text \<open>The body of \<open>: q bye ;\<close> at offset 64, entered by the colon handler: the saved IP
  is on the return stack and IP is at the body.\<close>

definition bye_vm :: vm where
  "bye_vm = vm_zero\<lparr>running := True, base := 10, latest := 2, here := 80, ip := 64, rstack := [0],
     dict := [mk_entry ''(exit)'' (Rt P_exit) 0 (- 1), mk_entry ''bye'' (Misc P_bye) 0 0,
              mk_entry ''q'' Docol 64 1],
     mem := put_cells (\<lambda>a. 0) 64 [1, 0]\<rparr>"


text \<open>The outer interpreter has just read \<open>:\<close> from the line \<open>: sq ;\<close>; HERE is
  not aligned.\<close>

definition colon_vm :: vm where
  "colon_vm = vm_zero\<lparr>running := True, base := 10, latest := 0, here := 67, xt_exit := 0,
     tib := '': sq ;'', tib_pos := 1,
     dict := [mk_entry ''(exit)'' (Rt P_exit) 0 (- 1)]\<rparr>"

text \<open>A defining word is running: \<open>create\<close> has just been read from the line
  \<open>create life\<close>, the IP is at the does-code at 104 (a lone exit XT) and the caller's
  IP 40 is on the return stack.\<close>

definition create_vm :: vm where
  "create_vm = vm_zero\<lparr>running := True, base := 10, latest := 0, here := 67, xt_exit := 0,
     tib := ''create life'', tib_pos := 6, ip := 104, rstack := [40],
     dict := [mk_entry ''(exit)'' (Rt P_exit) 0 (- 1)],
     mem := put_cells (\<lambda>a. 0) 104 [0]\<rparr>"

text \<open>The compiler has read \<open>: t\<close>: the hidden entry \<open>t\<close> with its body at 64, compile
  state, and the runtime helper XTs 0 to 3.\<close>

definition cg_vm :: vm where
  "cg_vm = vm_zero\<lparr>running := True, base := 10, latest := 4, here := 64, state := - 1,
     xt_lit := 0, xt_branch := 1, xt_0branch := 2, xt_exit := 3,
     dict := [mk_entry ''(lit)'' (Rt P_lit) 0 (- 1), mk_entry ''(branch)'' (Rt P_branch) 0 0,
              mk_entry ''(0branch)'' (Rt P_0branch) 0 1, mk_entry ''(exit)'' (Rt P_exit) 0 2,
              \<lparr>link = 3, flags = 0x41, name = ''t'', code = Docol, param = 64, does = - 1\<rparr>]\<rparr>"

text \<open>The same VM after \<open>if then ;\<close>: the body of \<open>t\<close> is the \<open>(0branch)\<close> XT, its
  target 80 (the offset of the exit XT, where \<open>then\<close> found HERE) and the exit XT.\<close>

definition cg_done :: vm where
  "cg_done = cg_vm\<lparr>here := 88, state := 0, mem := put_cells (\<lambda>a. 0) 64 [2, 80, 3],
      dict := [mk_entry ''(lit)'' (Rt P_lit) 0 (- 1), mk_entry ''(branch)'' (Rt P_branch) 0 0,
              mk_entry ''(0branch)'' (Rt P_0branch) 0 1, mk_entry ''(exit)'' (Rt P_exit) 0 2,
              \<lparr>link = 3, flags = 1, name = ''t'', code = Docol, param = 64, does = - 1\<rparr>]\<rparr>"



section \<open>Auxiliary lemmas\<close>

lemma bind_weak_cong: "x = y \<Longrightarrow> Option.bind x f = Option.bind y f"
  by simp

lemma load_bytes_numeral:
  "load_bytes m a (numeral k) = m a # load_bytes m (Suc a) (pred_numeral k)"
  by (simp add: numeral_eq_Suc)

lemma le_bytes_numeral:
  "le_bytes (numeral k) x = ucast x # le_bytes (pred_numeral k) (drop_bit 8 x)"
  by (simp add: numeral_eq_Suc)

lemmas stack_defs = push_def pop_def tos_def rpush_def rpop_def rtos_def sp_at_def rsp_at_def
  tos_upd_def DSTACK_SIZE_def RSTACK_SIZE_def depth_def rdepth_def

lemmas mem_defs = mem_fetch_def mem_store_def mem_c_fetch_def mem_c_store_def addr_ok_def
  MEM_SIZE_def vm_fetch_ip_def vm_compile_cell_def load_bytes_numeral le_bytes_numeral

lemma cell_neg_bit: "cell_neg x = bit x 63"
  using bit_last_iff [of x] by (simp add: cell_neg_def)

lemma cell_neg_xor: "cell_neg (a XOR b) = (cell_neg a \<noteq> cell_neg b)"
  by (simp add: cell_neg_bit bit_xor_iff)

lemma close_inputs_append: "close_inputs fs cl = cl @ fs"
  by (induction fs arbitrary: cl) simp_all

lemma vm_execute_numeral: "vm_execute (numeral k) v xt =
     (let v1 = v\<lparr>w := word_of_int xt\<rparr> in do {
        e \<leftarrow> dict_at v1 xt;
        if code e = Docol \<or> code e = Dodoes then do {
          v2 \<leftarrow> call_code (pred_numeral k) (code e) v1;
          vm_run (pred_numeral k) v2 }
        else call_code (pred_numeral k) (code e) v1 })"
  by (simp add: numeral_eq_Suc)

lemma vm_execute_One: "vm_execute 1 v xt =
     (let v1 = v\<lparr>w := word_of_int xt\<rparr> in do {
        e \<leftarrow> dict_at v1 xt;
        if code e = Docol \<or> code e = Dodoes then do {
          v2 \<leftarrow> call_code 0 (code e) v1;
          vm_run 0 v2 }
        else call_code 0 (code e) v1 })"
  using vm_execute.simps(2) [of 0 v xt] by simp

lemma vm_run_loop_numeral: "vm_run_loop (numeral k) rb v =
     (if running v \<and> rdepth v \<ge> rb then do {
        (xt, v1) \<leftarrow> vm_fetch_ip v;
        let v2 = v1\<lparr>w := xt\<rparr>;
        e \<leftarrow> dict_at v2 (sint xt);
        v3 \<leftarrow> call_code (pred_numeral k) (code e) v2;
        vm_run_loop (pred_numeral k) rb v3 }
      else Some v)"
  by (simp add: numeral_eq_Suc)

lemma vm_run_loop_One: "vm_run_loop 1 rb v =
     (if running v \<and> rdepth v \<ge> rb then do {
        (xt, v1) \<leftarrow> vm_fetch_ip v;
        let v2 = v1\<lparr>w := xt\<rparr>;
        e \<leftarrow> dict_at v2 (sint xt);
        v3 \<leftarrow> call_code 0 (code e) v2;
        vm_run_loop 0 rb v3 }
      else Some v)"
  using vm_run_loop.simps(2) [of 0 rb v] by simp

lemmas run_numerals = vm_execute_numeral vm_execute_One vm_run_loop_numeral vm_run_loop_One

lemmas eval_congs = bind_weak_cong option.case_cong_weak list.case_cong_weak let_weak_cong
  prod.case_cong_weak

lemma vm_run_loop_exit:
  "vm_run_loop n rb v = Some v' \<Longrightarrow> \<not> running v' \<or> rdepth v' < rb"
proof (induction n arbitrary: v)
  case 0
  then show ?case by simp
next
  case (Suc n)
  show ?case
  proof (cases "running v \<and> rb \<le> rdepth v")
    case True
    with Suc.prems obtain v3 where "vm_run_loop n rb v3 = Some v'"
      by (auto simp: Let_def split: Option.bind_splits prod.splits)
    then show ?thesis by (rule Suc.IH)
  next
    case False
    with Suc.prems have "v' = v" by auto
    with False show ?thesis by auto
  qed
qed




lemma length_le_bytes: "length (le_bytes n x) = n"
  by (induction n arbitrary: x) simp_all

lemma le_cell_le_bytes_take: "le_cell (le_bytes n x) = take_bit (8 * n) x"
proof (induction n arbitrary: x)
  case 0
  show ?case by simp
next
  case (Suc n)
  show ?case
    by (rule bit_word_eqI) (auto simp: Suc.IH bit_simps)
qed

lemma le_cell_le_bytes: "le_cell (le_bytes 8 x) = x"
  by (simp only: le_cell_le_bytes_take) (simp add: take_bit_word_eq_self)

lemma store_bytes_below: "b < a \<Longrightarrow> store_bytes m a bs b = m b"
  by (induction bs arbitrary: m a) simp_all

lemma store_bytes_above: "a + length bs \<le> b \<Longrightarrow> store_bytes m a bs b = m b"
  by (induction bs arbitrary: m a) simp_all

lemma load_store_same: "load_bytes (store_bytes m a bs) a (length bs) = bs"
proof (induction bs arbitrary: m a)
  case Nil
  show ?case by simp
next
  case (Cons b bs)
  show ?case by (simp add: Cons.IH store_bytes_below)
qed

lemma load_bytes_cong: "(\<And>b. a \<le> b \<Longrightarrow> b < a + n \<Longrightarrow> m b = m' b) \<Longrightarrow> load_bytes m a n = load_bytes m' a n"
  by (induction n arbitrary: a) simp_all

lemma mem_fetch_store_same: "mem_store v a x = Some v' \<Longrightarrow> mem_fetch v' a = Some x"
  using load_store_same [of "mem v" "nat (sint a)" "le_bytes 8 x"]
  by (auto simp: mem_store_def mem_fetch_def length_le_bytes le_cell_le_bytes split: if_splits)

lemma mem_fetch_store_other:
  assumes "mem_store v a x = Some v'" and "sint b + 8 \<le> sint a \<or> sint a + 8 \<le> sint b"
  shows "mem_fetch v' b = mem_fetch v b"
proof (cases "addr_ok b 8")
  case False
  then show ?thesis by (simp add: mem_fetch_def)
next
  case True
  from assms(1) have ok: "addr_ok a 8" and m: "mem v' = store_bytes (mem v) (nat (sint a)) (le_bytes 8 x)"
    by (auto simp: mem_store_def split: if_splits)
  have "load_bytes (mem v') (nat (sint b)) 8 = load_bytes (mem v) (nat (sint b)) 8"
  proof (rule load_bytes_cong)
    fix c assume "nat (sint b) \<le> c" "c < nat (sint b) + 8"
    with assms(2) True ok show "mem v' c = mem v c"
      unfolding m addr_ok_def
      by (cases "c < nat (sint a)") (auto simp: store_bytes_below store_bytes_above length_le_bytes)
  qed
  then show ?thesis by (simp add: mem_fetch_def)
qed

lemma mem_store_fields:
  "mem_store v a x = Some v' \<Longrightarrow> v' = v\<lparr>mem := mem v'\<rparr>"
  by (auto simp: mem_store_def split: if_splits)

lemma scan_word_len:
  "length buf \<le> NAME_MAX_LEN \<Longrightarrow> length (snd (scan_word t p buf)) \<le> NAME_MAX_LEN"
proof (induction t p buf rule: scan_word.induct)
  case (1 t p buf)
  show ?case
  proof (cases "p < length t \<and> schar (t ! p) > 32 \<and> length buf < NAME_MAX_LEN")
    case True
    then have "length (buf @ [t ! p]) \<le> NAME_MAX_LEN" by simp
    from "1.IH" [OF True this] True show ?thesis by (subst scan_word.simps) simp
  next
    case False
    with "1.prems" show ?thesis by (subst scan_word.simps) auto
  qed
qed

lemma vm_word_result:
  assumes "vm_word v = (nm, v1)"
  shows "v1 = v\<lparr>tib_pos := tib_pos v1\<rparr> \<and> length nm \<le> NAME_MAX_LEN"
proof -
  obtain p2 buf where s: "scan_word (tib v) (skip_space (tib v) (tib_pos v)) [] = (p2, buf)"
    by (cases "scan_word (tib v) (skip_space (tib v) (tib_pos v)) []")
  with assms have "nm = buf" "v1 = v\<lparr>tib_pos := p2\<rparr>" by (auto simp: vm_word_def Let_def)
  moreover from scan_word_len [of "[]" "tib v" "skip_space (tib v) (tib_pos v)"] s
  have "length buf \<le> NAME_MAX_LEN" by simp
  ultimately show ?thesis by simp
qed

lemma bit_F_HIDDEN: "bit F_HIDDEN k \<longleftrightarrow> k = 6"
proof -
  have h: "F_HIDDEN = (2::byte) ^ 6" by (simp add: F_HIDDEN_def)
  have b: "bit ((2::byte) ^ 6) k \<longleftrightarrow> k = 6"
    by (simp only: bit_exp_iff possible_bit_word) auto
  show ?thesis unfolding h by (rule b)
qed

lemma bit_F_IMMEDIATE: "bit F_IMMEDIATE k \<longleftrightarrow> k = 7"
proof -
  have h: "F_IMMEDIATE = (2::byte) ^ 7" by (simp add: F_IMMEDIATE_def)
  have b: "bit ((2::byte) ^ 7) k \<longleftrightarrow> k = 7"
    by (simp only: bit_exp_iff possible_bit_word) auto
  show ?thesis unfolding h by (rule b)
qed

lemma bit_F_LENMASK: "bit F_LENMASK k \<longleftrightarrow> k < 6"
proof -
  have h: "F_LENMASK = (mask 6 :: byte)" by (simp add: F_LENMASK_def mask_eq_exp_minus_1)
  have b: "bit (mask 6 :: byte) k \<longleftrightarrow> k < 6"
    by (simp only: bit_mask_iff possible_bit_word) auto
  show ?thesis unfolding h by (rule b)
qed

lemmas flag_bits = bit_F_HIDDEN bit_F_IMMEDIATE bit_F_LENMASK

lemma small_nat_bit: "n \<le> NAME_MAX_LEN \<Longrightarrow> bit n k \<Longrightarrow> k < 5"
proof (rule ccontr)
  assume "n \<le> NAME_MAX_LEN" "bit n k" "\<not> k < 5"
  then have "n < 2 ^ 5" "5 \<le> k" by (simp_all add: NAME_MAX_LEN_def)
  moreover have "(2::nat) ^ 5 \<le> 2 ^ k" using \<open>5 \<le> k\<close> by (rule power_increasing) simp
  ultimately have "n < 2 ^ k" by simp
  with \<open>bit n k\<close> show False by (simp add: bit_iff_odd)
qed

lemma len_byte_mask:
  assumes "n \<le> NAME_MAX_LEN"
  shows "(word_of_nat n :: byte) AND F_LENMASK = word_of_nat n"
    and "(word_of_nat n OR F_HIDDEN :: byte) AND F_LENMASK = word_of_nat n"
    and "(word_of_nat n :: byte) AND F_HIDDEN = 0"
    and "(word_of_nat n :: byte) AND F_IMMEDIATE = 0"
    and "(word_of_nat n OR F_HIDDEN :: byte) AND F_IMMEDIATE = 0"
  using small_nat_bit [OF assms]
  by (force simp: flag_bits bit_simps intro!: bit_word_eqI)+

lemma len_byte_unat: "n \<le> NAME_MAX_LEN \<Longrightarrow> unat (word_of_nat n :: byte) = n"
  by (simp add: NAME_MAX_LEN_def unat_of_nat)

lemma hidden_set: "((x :: byte) OR F_HIDDEN) AND F_HIDDEN \<noteq> 0"
proof -
  have "bit ((x OR F_HIDDEN) AND F_HIDDEN) 6" by (simp add: flag_bits bit_simps)
  then show ?thesis by auto
qed

lemma unhide_bits: "((x :: byte) AND NOT F_HIDDEN) AND F_HIDDEN = 0"
  by (simp add: and.assoc)


lemma vm_word_same:
  assumes "vm_word v = (nm, v1)"
  shows "dict v1 = dict v" "here v1 = here v" "latest v1 = latest v" "dstack v1 = dstack v"
proof -
  from vm_word_result [OF assms] have e: "v1 = v\<lparr>tib_pos := tib_pos v1\<rparr>" by simp
  show "dict v1 = dict v" by (subst e) simp
  show "here v1 = here v" by (subst e) simp
  show "latest v1 = latest v" by (subst e) simp
  show "dstack v1 = dstack v" by (subst e) simp
qed

lemma F_HIDDEN_nonzero: "F_HIDDEN \<noteq> 0"
  by (simp add: F_HIDDEN_def)

lemmas word_evals = vm_word_def skip_space.simps scan_word.simps schar_def NAME_MAX_LEN_def

lemma sint_xt: "0 \<le> xt \<Longrightarrow> xt < int MAX_DICT \<Longrightarrow> sint (word_of_int xt :: cell) = xt"
  by (simp add: signed_of_int signed_take_bit_int_eq_self MAX_DICT_def)

lemma dict_at_w: "dict_at (v\<lparr>w := y\<rparr>) i = dict_at v i"
  by (simp add: dict_at_def)

lemma dict_at_range: "dict_at v i = Some e \<Longrightarrow> 0 \<le> i \<and> i < int (length (dict v)) \<and> dict v ! nat i = e"
  by (auto simp: dict_at_def split: if_splits)

lemma codegen_body_numeral: "codegen_body (numeral k) v p = do {
     r \<leftarrow> codegen_step v p;
     case r of
       None \<Rightarrow> Some []
     | Some (txt, p') \<Rightarrow> do { rest \<leftarrow> codegen_body (pred_numeral k) v p'; Some (txt @ rest) }
   }"
  by (simp add: numeral_eq_Suc)


lemma cg_compiled:
  "do { v1 \<leftarrow> p_if cg_vm; v2 \<leftarrow> p_then v1; p_semicolon v2 } = Some cg_done"
  by (simp add: cg_done_def cg_vm_def vm_zero_def mk_entry_def p_if_def p_then_def p_semicolon_def
      stack_defs mem_defs dict_upd_def F_HIDDEN_def fun_eq_iff cong: eval_congs)














lemma call_code_decimal_hex:
  "call_code n (Misc P_decimal) v = Some (v\<lparr>base := 10\<rparr>)"
  "call_code n (Misc P_hex) v = Some (v\<lparr>base := 16\<rparr>)"
  by (simp_all add: p_decimal_def p_hex_def)











section \<open>The claims\<close>

text \<open>
  C4.  When \<open>(+loop)\<close> runs with the step \<open>s\<close> on the data stack and the index \<open>i\<close>
  and the limit \<open>L\<close> on the return stack, the loop ends (the index and the limit are gone
  from the return stack and control falls through to the cell after the back-reference)
  if and only if the new index \<open>i + s\<close> equals \<open>L\<close>, or the sign of \<open>i - L\<close> differs
  both from the sign of \<open>i + s - L\<close> and from the sign of \<open>s\<close>; otherwise the new index
  is pushed back and IP becomes the inline back-reference.
\<close>

theorem ploop_rt_boundary:
  assumes "mem_fetch v (ip v) = Some dest"
    and "dstack v = s # ds"
    and "rstack v = i # L # rs"
    and "length (rstack v) \<le> RSTACK_SIZE"
  shows "p_ploop_rt v = Some
      (if i + s = L \<or> (cell_neg (i - L) \<noteq> cell_neg (i + s - L) \<and> cell_neg (i - L) \<noteq> cell_neg s)
       then v\<lparr>ip := ip v + 8, dstack := ds, rstack := rs\<rparr>
       else v\<lparr>ip := dest, dstack := ds, rstack := (i + s) # L # rs\<rparr>)"
  using assms
  by (auto simp add: p_ploop_rt_def vm_fetch_ip_def pop_def rpop_def rtos_def rpush_def
      cell_neg_xor Let_def)

theorem ploop_rt_boundary_witness:
  "p_ploop_rt ploop_vm = Some (ploop_vm\<lparr>ip := 72, dstack := [], rstack := []\<rparr>)"
  using ploop_rt_boundary [of ploop_vm 48 2 "[]" 9 10 "[]"]
  by (simp add: ploop_vm_def vm_zero_def mem_defs RSTACK_SIZE_def cell_neg_def)

text \<open>
  C7.  A division-family primitive (\<open>/\<close>, \<open>mod\<close>, \<open>/mod\<close>) run with a zero divisor
  takes the abort path: the diagnostic goes to the error sink, the data stack and the
  return stack are emptied, compile state is cleared, every nested source handle is
  closed, and nothing is pushed.
\<close>

theorem div_zero_aborts:
  "(dstack v = 0 # ds \<longrightarrow>
      p_div v = Some (vm_abort (v\<lparr>dstack := ds\<rparr>) ''division by zero'') \<and>
      p_mod v = Some (vm_abort (v\<lparr>dstack := ds\<rparr>) ''division by zero'')) \<and>
   (dstack v = 0 # a # ds \<longrightarrow>
      p_divmod v = Some (vm_abort (v\<lparr>dstack := ds\<rparr>) ''division by zero'')) \<and>
   err (vm_abort u msg) = err u @ ''ABORT: '' @ msg @ NL \<and>
   dstack (vm_abort u msg) = [] \<and> rstack (vm_abort u msg) = [] \<and>
   state (vm_abort u msg) = 0 \<and> input (vm_abort u msg) = [] \<and>
   closed (vm_abort u msg) = closed u @ input u"
  by (simp add: p_div_def p_mod_def p_divmod_def pop_def vm_abort_def NL_def close_inputs_append)

theorem div_zero_aborts_witness:
  "p_div div0_vm = Some (div0_vm\<lparr>err := ''ABORT: division by zero'' @ NL, dstack := [],
      rstack := [], state := 0, closed := [2, 1], input := []\<rparr>) \<and>
   p_divmod div0_vm = p_div div0_vm \<and> p_mod div0_vm = p_div div0_vm"
  using div_zero_aborts [where v = div0_vm and ds = "[7, 5]"]
    div_zero_aborts [where v = div0_vm and a = 7 and ds = "[5]"]
  by (simp add: div0_vm_def vm_zero_def vm_abort_def NL_def)

text \<open>
  C1.  As stated the claim fails: the loop of the inner interpreter also stops when the
  \<open>running\<close> flag is cleared, with the return stack pointer not above its base.  In the
  body of \<open>: q bye ;\<close> the loop stops after \<open>bye\<close> with the saved IP still on the return
  stack.
\<close>

theorem vm_run_exit_counterexample:
  "vm_run 2 bye_vm = Some (bye_vm\<lparr>ip := 72, w := 1, running := False\<rparr>) \<and>
   \<not> rdepth (bye_vm\<lparr>ip := 72, w := 1, running := False\<rparr>) < rdepth bye_vm"
  by (simp add: bye_vm_def vm_zero_def mk_entry_def stack_defs mem_defs dict_at_def p_bye_def
      run_numerals cong: eval_congs)

text \<open>
  C1, amended.  \<open>vm_run\<close> takes the return stack depth at its entry as the base.  Every
  step of its loop reads one cell from the arena at IP and advances IP by one cell (8
  bytes) before it dispatches the handler of the entry that cell names.  The loop stops
  exactly when the return stack pointer is above the base (the depth is below the depth
  at entry) or the \<open>running\<close> flag is cleared: it makes no step in such a state, it
  makes a step in every other state, and the state it returns is such a state.
\<close>

theorem vm_run_step_and_exit:
  "vm_run n v = vm_run_loop n (rdepth v) v \<and>
   (running v \<and> rb \<le> rdepth v \<longrightarrow>
      vm_run_loop (Suc n) rb v = do {
        x \<leftarrow> mem_fetch v (ip v);
        e \<leftarrow> dict_at v (sint x);
        v3 \<leftarrow> call_code n (code e) (v\<lparr>ip := ip v + 8, w := x\<rparr>);
        vm_run_loop n rb v3 }) \<and>
   (\<not> running v \<or> rdepth v < rb \<longrightarrow> vm_run_loop (Suc n) rb v = Some v) \<and>
   (vm_run_loop n rb v = Some v' \<longrightarrow> \<not> running v' \<or> rdepth v' < rb)"
proof -
  have a: "running v \<and> rb \<le> rdepth v \<longrightarrow>
      vm_run_loop (Suc n) rb v = do {
        x \<leftarrow> mem_fetch v (ip v);
        e \<leftarrow> dict_at v (sint x);
        v3 \<leftarrow> call_code n (code e) (v\<lparr>ip := ip v + 8, w := x\<rparr>);
        vm_run_loop n rb v3 }"
    by (cases "mem_fetch v (ip v)") (simp_all add: vm_fetch_ip_def dict_at_def Let_def)
  have b: "\<not> running v \<or> rdepth v < rb \<longrightarrow> vm_run_loop (Suc n) rb v = Some v"
    by auto
  from a b vm_run_loop_exit [of n rb v v'] show ?thesis by simp
qed

theorem vm_run_step_and_exit_witness:
  "vm_run_loop 2 1 bye_vm = Some (bye_vm\<lparr>ip := 72, w := 1, running := False\<rparr>) \<and>
   \<not> running (bye_vm\<lparr>ip := 72, w := 1, running := False\<rparr>)"
proof -
  have r: "vm_run_loop 2 1 bye_vm = Some (bye_vm\<lparr>ip := 72, w := 1, running := False\<rparr>)"
    by (simp add: bye_vm_def vm_zero_def mk_entry_def stack_defs mem_defs dict_at_def p_bye_def
      run_numerals cong: eval_congs)
  with vm_run_step_and_exit [of 2 bye_vm 1 "bye_vm\<lparr>ip := 72, w := 1, running := False\<rparr>"]
  show ?thesis by simp
qed





text \<open>
  C3.  \<open>:\<close> parses a name and, when there is one, appends a dictionary entry with that
  name, the HIDDEN flag set, the name length in the low six bits of the flags, the colon
  handler and the cell-aligned HERE as param; the entry becomes the latest one, HERE is
  aligned and the VM is in compile state (\<open>state = -1\<close>).  \<open>;\<close> appends the exit-runtime
  XT at HERE, clears the HIDDEN flag of the latest entry and clears compile state.
\<close>

theorem colon_semicolon:
  "(vm_word v = (nm, v1) \<and> nm \<noteq> [] \<and> length (dict v) < MAX_DICT \<longrightarrow>
      p_colon v = Some (v1\<lparr>dict := dict v @
                    [\<lparr>link = latest v, flags = word_of_nat (length nm) OR F_HIDDEN, name = nm,
                      code = Docol, param = vm_align (here v), does = - 1\<rparr>],
                  here := vm_align (here v), latest := int (length (dict v)), state := - 1\<rparr>) \<and>
      (word_of_nat (length nm) OR F_HIDDEN) AND F_HIDDEN \<noteq> 0 \<and>
      unat ((word_of_nat (length nm) OR F_HIDDEN) AND F_LENMASK) = length nm \<and>
      (- 1 :: cell) \<noteq> 0) \<and>
   (dict_at v (latest v) = Some e \<and> addr_ok (here v) 8 \<longrightarrow>
      (case p_semicolon v of
         None \<Rightarrow> False
       | Some v' \<Rightarrow>
           mem_fetch v' (here v) = Some (word_of_int (xt_exit v)) \<and> here v' = here v + 8 \<and>
           dict v' = (dict v)[nat (latest v) := e\<lparr>flags := flags e AND NOT F_HIDDEN\<rparr>] \<and>
           (flags e AND NOT F_HIDDEN) AND F_HIDDEN = 0 \<and>
           state v' = 0 \<and> latest v' = latest v \<and> dstack v' = dstack v \<and> rstack v' = rstack v))"
proof -
  have a: "p_colon v = Some (v1\<lparr>dict := dict v @
                    [\<lparr>link = latest v, flags = word_of_nat (length nm) OR F_HIDDEN, name = nm,
                      code = Docol, param = vm_align (here v), does = - 1\<rparr>],
                  here := vm_align (here v), latest := int (length (dict v)), state := - 1\<rparr>) \<and>
      (word_of_nat (length nm) OR F_HIDDEN) AND F_HIDDEN \<noteq> 0 \<and>
      unat ((word_of_nat (length nm) OR F_HIDDEN) AND F_LENMASK) = length nm \<and>
      (- 1 :: cell) \<noteq> 0"
    if w: "vm_word v = (nm, v1)" and n: "nm \<noteq> []" and c: "length (dict v) < MAX_DICT"
  proof -
    from vm_word_result [OF w] have l: "length nm \<le> NAME_MAX_LEN" by simp
    from w n c show ?thesis
      by (simp add: p_colon_def vm_word_same [OF w] F_HIDDEN_nonzero len_byte_mask [OF l] len_byte_unat [OF l])
  qed
  have b: "case p_semicolon v of
         None \<Rightarrow> False
       | Some v' \<Rightarrow>
           mem_fetch v' (here v) = Some (word_of_int (xt_exit v)) \<and> here v' = here v + 8 \<and>
           dict v' = (dict v)[nat (latest v) := e\<lparr>flags := flags e AND NOT F_HIDDEN\<rparr>] \<and>
           (flags e AND NOT F_HIDDEN) AND F_HIDDEN = 0 \<and>
           state v' = 0 \<and> latest v' = latest v \<and> dstack v' = dstack v \<and> rstack v' = rstack v"
    if d: "dict_at v (latest v) = Some e" and ok: "addr_ok (here v) 8"
  proof -
    define M where "M = store_bytes (mem v) (nat (sint (here v))) (le_bytes 8 (word_of_int (xt_exit v)))"
    from ok have s: "mem_store v (here v) (word_of_int (xt_exit v)) = Some (v\<lparr>mem := M\<rparr>)"
      by (simp add: mem_store_def M_def)
    from d have r: "0 \<le> latest v" "latest v < int (length (dict v))" "dict v ! nat (latest v) = e"
      by (auto simp: dict_at_def split: if_splits)
    have p: "p_semicolon v = Some (v\<lparr>mem := M, here := here v + 8,
        dict := (dict v)[nat (latest v) := e\<lparr>flags := flags e AND NOT F_HIDDEN\<rparr>], state := 0\<rparr>)"
      using r by (simp add: p_semicolon_def vm_compile_cell_def s dict_upd_def)
    have "mem_fetch (v\<lparr>mem := M, here := here v + 8,
        dict := (dict v)[nat (latest v) := e\<lparr>flags := flags e AND NOT F_HIDDEN\<rparr>], state := 0\<rparr>) (here v)
        = mem_fetch (v\<lparr>mem := M\<rparr>) (here v)"
      by (simp add: mem_fetch_def)
    with mem_fetch_store_same [OF s] show ?thesis
      by (simp add: p unhide_bits)
  qed
  from a b show ?thesis by blast
qed


theorem colon_semicolon_witness:
  "p_colon colon_vm = Some (colon_vm\<lparr>tib_pos := 4, dict := [mk_entry ''(exit)'' (Rt P_exit) 0 (- 1),
        \<lparr>link = 0, flags = 0x42, name = ''sq'', code = Docol, param = 72, does = - 1\<rparr>],
      here := 72, latest := 1, state := - 1\<rparr>) \<and>
   map_option (\<lambda>u. (mem_fetch u 72, here u, map flags (dict u), state u))
     (p_semicolon (colon_vm\<lparr>tib_pos := 4, dict := [mk_entry ''(exit)'' (Rt P_exit) 0 (- 1),
        \<lparr>link = 0, flags = 0x42, name = ''sq'', code = Docol, param = 72, does = - 1\<rparr>],
      here := 72, latest := 1, state := - 1\<rparr>)) = Some (Some 0, 80, [6, 2], 0)"
proof -
  let ?e = "\<lparr>link = 0, flags = 0x42, name = ''sq'', code = Docol, param = 72, does = - 1\<rparr>"
  let ?v = "colon_vm\<lparr>tib_pos := 4, dict := [mk_entry ''(exit)'' (Rt P_exit) 0 (- 1), ?e],
      here := 72, latest := 1, state := - 1\<rparr>"
  have w: "vm_word colon_vm = (''sq'', colon_vm\<lparr>tib_pos := 4\<rparr>)"
    by (simp add: colon_vm_def vm_zero_def word_evals)
  have a: "p_colon colon_vm = Some ?v"
    using w colon_semicolon [of colon_vm "''sq''" "colon_vm\<lparr>tib_pos := 4\<rparr>"]
    by (simp add: colon_vm_def vm_zero_def MAX_DICT_def vm_align_def F_HIDDEN_def)
  have d: "dict_at ?v (latest ?v) = Some ?e" "addr_ok (here ?v) 8"
    by (simp_all add: dict_at_def mem_defs)
  obtain v' where p: "p_semicolon ?v = Some v'"
    using d colon_semicolon [where v = ?v and e = ?e] by (cases "p_semicolon ?v") simp_all
  with d colon_semicolon [where v = ?v and e = ?e]
  have "mem_fetch v' 72 = Some 0 \<and> here v' = 80 \<and> state v' = 0 \<and>
     dict v' = [mk_entry ''(exit)'' (Rt P_exit) 0 (- 1), ?e\<lparr>flags := 2\<rparr>]"
    by (simp add: colon_vm_def vm_zero_def F_HIDDEN_def)
  with a p show ?thesis by (simp add: mk_entry_def)
qed

text \<open>
  C6.  \<open>CREATE\<close> followed by a name appends a visible entry (HIDDEN clear) with the
  variable handler whose param is the cell-aligned HERE at that moment, and makes it the
  latest entry; executing an entry with the variable handler pushes its param.  The
  \<open>(does>)\<close> runtime rewrites the latest entry so that its handler is the does-derived
  one and its does field is the current IP, and then leaves the defining word (IP is
  popped from the return stack).  Executing the entry afterwards pushes its param, saves
  the IP on the return stack and runs the inner interpreter from the does field.
\<close>

theorem create_does:
  "(vm_word v = (nm, v1) \<and> nm \<noteq> [] \<and> length (dict v) < MAX_DICT \<longrightarrow>
      p_create v = Some (v1\<lparr>dict := dict v @
                    [\<lparr>link = latest v, flags = word_of_nat (length nm), name = nm,
                      code = Dovar, param = vm_align (here v), does = - 1\<rparr>],
                  here := vm_align (here v), latest := int (length (dict v))\<rparr>) \<and>
      (word_of_nat (length nm) :: byte) AND F_HIDDEN = 0) \<and>
   (dict_at v xt = Some e \<and> code e = Dovar \<and> length (dict v) \<le> MAX_DICT \<and>
    length (dstack v) < DSTACK_SIZE \<longrightarrow>
      vm_execute (Suc n) v xt = Some (v\<lparr>w := word_of_int xt, dstack := param e # dstack v\<rparr>)) \<and>
   (dict_at v (latest v) = Some e \<and> rstack v = r # rs \<longrightarrow>
      p_does_runtime v = Some (v\<lparr>dict := (dict v)[nat (latest v) := e\<lparr>code := Dodoes, does := ip v\<rparr>],
                                 rstack := rs, ip := r\<rparr>)) \<and>
   (dict_at v xt = Some e \<and> code e = Dodoes \<and> length (dict v) \<le> MAX_DICT \<and>
    length (dstack v) < DSTACK_SIZE \<and> length (rstack v) < RSTACK_SIZE \<longrightarrow>
      vm_execute (Suc n) v xt =
        vm_run n (v\<lparr>w := word_of_int xt, dstack := param e # dstack v,
                    rstack := ip v # rstack v, ip := does e\<rparr>))"
proof -
  have a: "p_create v = Some (v1\<lparr>dict := dict v @
                    [\<lparr>link = latest v, flags = word_of_nat (length nm), name = nm,
                      code = Dovar, param = vm_align (here v), does = - 1\<rparr>],
                  here := vm_align (here v), latest := int (length (dict v))\<rparr>) \<and>
      (word_of_nat (length nm) :: byte) AND F_HIDDEN = 0"
    if w: "vm_word v = (nm, v1)" and n: "nm \<noteq> []" and c: "length (dict v) < MAX_DICT"
  proof -
    from vm_word_result [OF w] have l: "length nm \<le> NAME_MAX_LEN" by simp
    from w n c show ?thesis
      by (simp add: p_create_def vm_word_same [OF w] len_byte_mask [OF l])
  qed
  have b: "vm_execute (Suc n) v xt = Some (v\<lparr>w := word_of_int xt, dstack := param e # dstack v\<rparr>)"
    if d: "dict_at v xt = Some e" and c: "code e = Dovar" and m: "length (dict v) \<le> MAX_DICT"
      and s: "length (dstack v) < DSTACK_SIZE"
  proof -
    from dict_at_range [OF d] m have "sint (word_of_int xt :: cell) = xt" by (intro sint_xt) auto
    with d c s show ?thesis by (simp add: dict_at_w dovar_def push_def)
  qed
  have c: "p_does_runtime v = Some (v\<lparr>dict := (dict v)[nat (latest v) := e\<lparr>code := Dodoes, does := ip v\<rparr>],
                                 rstack := rs, ip := r\<rparr>)"
    if d: "dict_at v (latest v) = Some e" and s: "rstack v = r # rs"
  proof -
    from dict_at_range [OF d] have "nat (latest v) < length (dict v)" by auto
    with dict_at_range [OF d] s show ?thesis
      by (simp add: p_does_runtime_def dict_upd_def rpop_def)
  qed
  have d: "vm_execute (Suc n) v xt =
        vm_run n (v\<lparr>w := word_of_int xt, dstack := param e # dstack v,
                    rstack := ip v # rstack v, ip := does e\<rparr>)"
    if d: "dict_at v xt = Some e" and c: "code e = Dodoes" and m: "length (dict v) \<le> MAX_DICT"
      and s: "length (dstack v) < DSTACK_SIZE" and t: "length (rstack v) < RSTACK_SIZE"
  proof -
    from dict_at_range [OF d] m have "sint (word_of_int xt :: cell) = xt" by (intro sint_xt) auto
    with d c s t show ?thesis by (simp add: dict_at_w dodoes_def push_def rpush_def Let_def)
  qed
  from a b c d show ?thesis by blast
qed


theorem create_does_witness:
  "p_create create_vm = Some (create_vm\<lparr>tib_pos := 11, dict := [mk_entry ''(exit)'' (Rt P_exit) 0 (- 1),
        \<lparr>link = 0, flags = 4, name = ''life'', code = Dovar, param = 72, does = - 1\<rparr>],
      here := 72, latest := 1\<rparr>) \<and>
   vm_execute 1 (create_vm\<lparr>tib_pos := 11, dict := [mk_entry ''(exit)'' (Rt P_exit) 0 (- 1),
        \<lparr>link = 0, flags = 4, name = ''life'', code = Dovar, param = 72, does = - 1\<rparr>],
      here := 72, latest := 1\<rparr>) 1 =
     Some (create_vm\<lparr>tib_pos := 11, dict := [mk_entry ''(exit)'' (Rt P_exit) 0 (- 1),
        \<lparr>link = 0, flags = 4, name = ''life'', code = Dovar, param = 72, does = - 1\<rparr>],
      here := 72, latest := 1, w := 1, dstack := [72]\<rparr>) \<and>
   p_does_runtime (create_vm\<lparr>tib_pos := 11, dict := [mk_entry ''(exit)'' (Rt P_exit) 0 (- 1),
        \<lparr>link = 0, flags = 4, name = ''life'', code = Dovar, param = 72, does = - 1\<rparr>],
      here := 72, latest := 1\<rparr>) =
     Some (create_vm\<lparr>tib_pos := 11, dict := [mk_entry ''(exit)'' (Rt P_exit) 0 (- 1),
        \<lparr>link = 0, flags = 4, name = ''life'', code = Dodoes, param = 72, does = 104\<rparr>],
      here := 72, latest := 1, rstack := [], ip := 40\<rparr>) \<and>
   vm_execute 3 (create_vm\<lparr>tib_pos := 11, dict := [mk_entry ''(exit)'' (Rt P_exit) 0 (- 1),
        \<lparr>link = 0, flags = 4, name = ''life'', code = Dodoes, param = 72, does = 104\<rparr>],
      here := 72, latest := 1, rstack := [], ip := 40\<rparr>) 1 =
     Some (create_vm\<lparr>tib_pos := 11, dict := [mk_entry ''(exit)'' (Rt P_exit) 0 (- 1),
        \<lparr>link = 0, flags = 4, name = ''life'', code = Dodoes, param = 72, does = 104\<rparr>],
      here := 72, latest := 1, w := 0, dstack := [72], rstack := [], ip := 40\<rparr>)"
proof -
  let ?e = "\<lparr>link = 0, flags = 4, name = ''life'', code = Dovar, param = 72, does = - 1\<rparr>"
  let ?e' = "\<lparr>link = 0, flags = 4, name = ''life'', code = Dodoes, param = 72, does = 104\<rparr>"
  let ?v = "create_vm\<lparr>tib_pos := 11, dict := [mk_entry ''(exit)'' (Rt P_exit) 0 (- 1), ?e],
      here := 72, latest := 1\<rparr>"
  let ?v' = "create_vm\<lparr>tib_pos := 11, dict := [mk_entry ''(exit)'' (Rt P_exit) 0 (- 1), ?e'],
      here := 72, latest := 1, rstack := [], ip := 40\<rparr>"
  have w: "vm_word create_vm = (''life'', create_vm\<lparr>tib_pos := 11\<rparr>)"
    by (simp add: create_vm_def vm_zero_def word_evals)
  have a: "p_create create_vm = Some ?v"
    using w create_does [where v = create_vm and nm = "''life''" and ?v1.0 = "create_vm\<lparr>tib_pos := 11\<rparr>"]
    by (simp add: create_vm_def vm_zero_def MAX_DICT_def vm_align_def)
  have b: "vm_execute 1 ?v 1 = Some (?v\<lparr>w := 1, dstack := [72]\<rparr>)"
    using create_does [where v = ?v and xt = 1 and e = ?e and n = 0]
    by (simp add: create_vm_def vm_zero_def dict_at_def MAX_DICT_def DSTACK_SIZE_def)
  have c: "p_does_runtime ?v = Some ?v'"
    using create_does [where v = ?v and e = ?e and r = 40 and rs = "[]"]
    by (simp add: create_vm_def vm_zero_def dict_at_def)
  have d: "vm_execute 3 ?v' 1 = Some (?v'\<lparr>w := 0, dstack := [72]\<rparr>)"
    using create_does [where v = ?v' and xt = 1 and e = ?e' and n = 2]
    by (simp add: create_vm_def vm_zero_def mk_entry_def dict_at_def MAX_DICT_def stack_defs
        mem_defs p_exit_def run_numerals cong: eval_congs)
  from a b c d show ?thesis by simp
qed

text \<open>
  C9.  The code does not do what the claim says.  For \<open>: t if then ;\<close> the compiler
  words leave the body \<open>(0branch) 80 (exit)\<close> at 64, where 80 is an absolute arena
  offset: the inner interpreter's \<open>(0branch)\<close> sets IP to 80.  \<open>codegen_word\<close> adds the
  offset of the next cell to the inline cell and emits \<open>goto L160\<close>, not \<open>goto L80\<close>,
  and the text it emits holds no label definition at all, so the generated source is not
  valid C.
\<close>

theorem codegen_0branch_evaluation:
  "do { v1 \<leftarrow> p_if cg_vm; v2 \<leftarrow> p_then v1; p_semicolon v2 } = Some cg_done \<and>
   codegen_word 3 cg_done 4 =
     Some (''static void word_t(void) {'' @ NL @
           ''    if (POP() == 0) goto L160;'' @ NL @
           ''}'' @ NL @ NL) \<and>
   mem_fetch cg_done 72 = Some 80 \<and>
   map_option ip (p_0branch (cg_done\<lparr>ip := 72, dstack := [0]\<rparr>)) = Some 80"
proof -
  have a: "codegen_word 3 cg_done 4 =
     Some (''static void word_t(void) {'' @ NL @
           ''    if (POP() == 0) goto L160;'' @ NL @
           ''}'' @ NL @ NL)"
    by (simp add: cg_done_def cg_vm_def vm_zero_def codegen_word_def codegen_body_numeral
      codegen_step_def mk_entry_def dict_at_def mem_defs sanitize_name_def c_ident_char_def
      show_long_def show_nat.simps NL_def cong: eval_congs) code_simp
  have b: "mem_fetch cg_done 72 = Some 80"
    by (simp add: cg_done_def cg_vm_def vm_zero_def mem_defs)
  have c: "map_option ip (p_0branch (cg_done\<lparr>ip := 72, dstack := [0]\<rparr>)) = Some 80"
    by (simp add: cg_done_def cg_vm_def vm_zero_def mem_defs stack_defs p_0branch_def cong: eval_congs)
  from cg_compiled a b c show ?thesis by simp
qed




end
